theory Spec2Isabelle
  imports Main
begin

section \<open>Strings\<close>

text \<open>
  A JavaScript string is a sequence of UTF-16 code units. Every literal of the sources that
  is not ASCII lies in the Basic Multilingual Plane, so each of its characters is one code
  unit, written here by its number.
\<close>

type_synonym jsstring = "nat list"

definition js :: "string \<Rightarrow> jsstring" where
  "js s = map of_char s"

text \<open>\<^verbatim>\<open>String.prototype.startsWith\<close> and \<^verbatim>\<open>String.prototype.includes\<close>.\<close>

fun starts_with :: "jsstring \<Rightarrow> jsstring \<Rightarrow> bool" where
  "starts_with s [] = True"
| "starts_with [] (p # ps) = False"
| "starts_with (c # cs) (p # ps) = (c = p \<and> starts_with cs ps)"

fun str_includes :: "jsstring \<Rightarrow> jsstring \<Rightarrow> bool" where
  "str_includes [] pat = (pat = [])"
| "str_includes (c # cs) pat = (starts_with (c # cs) pat \<or> str_includes cs pat)"

text \<open>\<^verbatim>\<open>Array.prototype.join\<close> on an array of strings.\<close>

fun join :: "jsstring \<Rightarrow> jsstring list \<Rightarrow> jsstring" where
  "join sep [] = []"
| "join sep [x] = x"
| "join sep (x # y # ys) = x @ sep @ join sep (y # ys)"

text \<open>
  The decimal rendering of an integer inside a template literal: \<^verbatim>\<open>`${n}`\<close>.
\<close>

fun digits :: "nat \<Rightarrow> jsstring" where
  "digits n = (if n < 10 then [48 + n] else digits (n div 10) @ [48 + n mod 10])"

definition show_int :: "int \<Rightarrow> jsstring" where
  "show_int i = (if i < 0 then 45 # digits (nat (- i)) else digits (nat i))"

section \<open>Official status of Anthropic (lib/official-status/anthropic.ts)\<close>

datatype OfficialHealthStatus =
  OfficialOperational | OfficialDegraded | OfficialDown | OfficialUnknown

record OfficialStatusResult =
  os_status :: OfficialHealthStatus
  os_message :: jsstring
  os_checkedAt :: int
  affectedComponents :: "jsstring list option"

text \<open>
  The fields of \<^verbatim>\<open>AnthropicSummaryResponse\<close> that the parser reads. \<^verbatim>\<open>components\<close>
  may be missing from the JSON (the code reads \<^verbatim>\<open>data.components || []\<close>).
\<close>

record StatusComponent =
  comp_name :: jsstring
  comp_status :: jsstring

record AnthropicSummaryResponse =
  indicator :: jsstring
  description :: jsstring
  components :: "StatusComponent list option"

text \<open>
  The loop over the components, with its three variables \<^verbatim>\<open>affectedComponents\<close>,
  \<^verbatim>\<open>hasDownComponents\<close> and \<^verbatim>\<open>hasDegradedComponents\<close> as the accumulator.
  \<^verbatim>\<open>String.prototype.toLowerCase\<close> is the platform's; it is the parameter \<open>lc\<close>.
\<close>

fun scan_components ::
  "(jsstring \<Rightarrow> jsstring) \<Rightarrow> StatusComponent list \<Rightarrow> jsstring list \<times> bool \<times> bool
     \<Rightarrow> jsstring list \<times> bool \<times> bool" where
  "scan_components lc [] acc = acc"
| "scan_components lc (component # rest) (affected, hasDown, hasDegraded) =
     (let compStatus = lc (comp_status component) in
      if compStatus \<noteq> js ''operational'' then
        (if str_includes compStatus (js ''outage'') \<or> str_includes compStatus (js ''down'')
            \<or> compStatus = js ''major_outage''
         then scan_components lc rest (affected @ [comp_name component], True, hasDegraded)
         else if str_includes compStatus (js ''degraded'')
            \<or> compStatus = js ''degraded_performance''
         then scan_components lc rest (affected @ [comp_name component], hasDown, True)
         else scan_components lc rest (affected @ [comp_name component], hasDown, hasDegraded))
      else scan_components lc rest (affected, hasDown, hasDegraded))"

definition msg_unknown_state :: jsstring where
  "msg_unknown_state = [26410, 30693, 29366, 24577]"

definition msg_etc :: jsstring where
  "msg_etc = [32, 31561, 32]"

definition msg_components :: jsstring where
  "msg_components = [32, 20010, 32452, 20214]"

definition msg_affected :: jsstring where
  "msg_affected = [32, 21463, 24433, 21709]"

definition parseAnthropicSummary ::
  "(jsstring \<Rightarrow> jsstring) \<Rightarrow> AnthropicSummaryResponse \<Rightarrow> int \<Rightarrow> OfficialStatusResult" where
  "parseAnthropicSummary lc data checkedAt =
     (let ind = lc (indicator data);
          comps = (case components data of None \<Rightarrow> [] | Some cs \<Rightarrow> cs);
          (affected, hasDownComponents, hasDegradedComponents) =
             scan_components lc comps ([], False, False);
          status =
            (if ind = js ''none'' \<and> length affected = 0 then OfficialOperational
             else if ind = js ''critical'' \<or> ind = js ''major'' \<or> hasDownComponents
               then OfficialDown
             else if ind = js ''minor'' \<or> hasDegradedComponents then OfficialDegraded
             else OfficialUnknown);
          message =
            (if length affected > 0 then
               join (js '', '') (take 3 affected)
                 @ (if length affected > 3
                    then msg_etc @ digits (length affected) @ msg_components else [])
                 @ msg_affected
             else description data)
      in \<lparr> os_status = status,
           os_message = (if message = [] then msg_unknown_state else message),
           os_checkedAt = checkedAt,
           affectedComponents = (if length affected > 0 then Some affected else None) \<rparr>)"

text \<open>Lower-casing of the ASCII letters, for strings that hold no other letter.\<close>

definition ascii_lower :: "jsstring \<Rightarrow> jsstring" where
  "ascii_lower s = map (\<lambda>c. if 65 \<le> c \<and> c \<le> 90 then c + 32 else c) s"

text \<open>The components the parser iterates over, and the two tests of its loop.\<close>

definition comps_of :: "AnthropicSummaryResponse \<Rightarrow> StatusComponent list" where
  "comps_of data = (case components data of None \<Rightarrow> [] | Some cs \<Rightarrow> cs)"

definition non_operational :: "(jsstring \<Rightarrow> jsstring) \<Rightarrow> StatusComponent \<Rightarrow> bool" where
  "non_operational lc c = (lc (comp_status c) \<noteq> js ''operational'')"

definition down_component :: "(jsstring \<Rightarrow> jsstring) \<Rightarrow> StatusComponent \<Rightarrow> bool" where
  "down_component lc c =
     (str_includes (lc (comp_status c)) (js ''outage'')
      \<or> str_includes (lc (comp_status c)) (js ''down''))"

text \<open>Summaries of the status page used as concrete inputs below.\<close>

definition summary_of :: "string \<Rightarrow> string \<Rightarrow> AnthropicSummaryResponse" where
  "summary_of ind st =
     \<lparr> indicator = js ind, description = js ''All Systems Operational'',
       components = Some [\<lparr> comp_name = js ''Claude API'', comp_status = js st \<rparr>] \<rparr>"

section \<open>Data model (lib/types)\<close>

datatype ProviderType = OpenAI | Gemini | Anthropic

datatype HealthStatus = Operational | Degraded | Failed | Maintenance

datatype RefreshMode = Always | Missing | Never

text \<open>
  \<^verbatim>\<open>ProviderConfig\<close>. \<^verbatim>\<open>requestHeaders\<close> and \<^verbatim>\<open>metadata\<close> only shape the outbound
  request; they are left out, the outcome of the request being an input of the probes below.
  A \<^verbatim>\<open>null\<close> or missing field is \<open>None\<close>.
\<close>

record ProviderConfig =
  cfg_id :: jsstring
  cfg_name :: jsstring
  cfg_type :: ProviderType
  cfg_endpoint :: "jsstring option"
  cfg_model :: jsstring
  apiKey :: jsstring
  is_maintenance :: bool
  cfg_groupName :: "jsstring option"

text \<open>
  \<^verbatim>\<open>CheckResult\<close>. \<^verbatim>\<open>checkedAt\<close> is an ISO-8601 instant in the code, read back with
  \<^verbatim>\<open>new Date(checkedAt).getTime()\<close> wherever it is compared; the model keeps that number
  of milliseconds.
\<close>

record CheckResult =
  res_id :: jsstring
  res_name :: jsstring
  res_type :: ProviderType
  res_endpoint :: "jsstring option"
  res_model :: jsstring
  status :: HealthStatus
  latencyMs :: "int option"
  pingLatencyMs :: "int option"
  checkedAt :: int
  message :: jsstring
  groupName :: "jsstring option"
  officialStatus :: "OfficialStatusResult option"

text \<open>
  \<^verbatim>\<open>HistorySnapshot = Record<string, CheckResult[]>\<close>: the keys in the order of their
  insertion, which is the order \<^verbatim>\<open>Object.keys\<close> and \<^verbatim>\<open>Object.entries\<close> enumerate
  them in (configuration ids are UUIDs, never integer-like keys).
\<close>

type_synonym HistorySnapshot = "(jsstring \<times> CheckResult list) list"


section \<open>Sorting\<close>

text \<open>
  \<^verbatim>\<open>Array.prototype.sort\<close> with a comparator: a stable sort, \<open>a\<close> staying before \<open>b\<close>
  unless \<open>cmp a b > 0\<close>.
\<close>

fun insert_cmp :: "('a \<Rightarrow> 'a \<Rightarrow> int) \<Rightarrow> 'a \<Rightarrow> 'a list \<Rightarrow> 'a list" where
  "insert_cmp cmp x [] = [x]"
| "insert_cmp cmp x (y # ys) =
     (if cmp x y \<le> 0 then x # y # ys else y # insert_cmp cmp x ys)"

definition sort_cmp :: "('a \<Rightarrow> 'a \<Rightarrow> int) \<Rightarrow> 'a list \<Rightarrow> 'a list" where
  "sort_cmp cmp xs = foldr (insert_cmp cmp) xs []"

text \<open>
  The comparator of every sort by date in the sources:
  \<^verbatim>\<open>(a, b) => new Date(b.checkedAt).getTime() - new Date(a.checkedAt).getTime()\<close>.
\<close>

definition newest_first :: "CheckResult \<Rightarrow> CheckResult \<Rightarrow> int" where
  "newest_first a b = checkedAt b - checkedAt a"

section \<open>History store (lib/database/history.ts)\<close>

definition MAX_POINTS_PER_PROVIDER :: nat where
  "MAX_POINTS_PER_PROVIDER = 60"

text \<open>
  A row of the \<^verbatim>\<open>get_recent_check_history\<close> procedure. \<^verbatim>\<open>status\<close> and \<^verbatim>\<open>type\<close> are
  cast, not checked, by the code; the columns hold the values of the two enumerations.
\<close>

record RpcHistoryRow =
  row_config_id :: jsstring
  row_status :: HealthStatus
  row_latency_ms :: "int option"
  row_ping_latency_ms :: "int option"
  row_checked_at :: int
  row_message :: "jsstring option"
  row_name :: jsstring
  row_type :: ProviderType
  row_model :: jsstring
  row_endpoint :: "jsstring option"
  row_group_name :: "jsstring option"

definition row_to_result :: "RpcHistoryRow \<Rightarrow> CheckResult" where
  "row_to_result row =
     \<lparr> res_id = row_config_id row,
       res_name = row_name row,
       res_type = row_type row,
       res_endpoint = Some (case row_endpoint row of None \<Rightarrow> [] | Some e \<Rightarrow> e),
       res_model = row_model row,
       status = row_status row,
       latencyMs = row_latency_ms row,
       pingLatencyMs = row_ping_latency_ms row,
       checkedAt = row_checked_at row,
       message = (case row_message row of None \<Rightarrow> [] | Some m \<Rightarrow> m),
       groupName = row_group_name row,
       officialStatus = None \<rparr>"

text \<open>
  The body of the first loop: \<^verbatim>\<open>if (!history[id]) history[id] = []; history[id].push(result)\<close>.
\<close>

fun push_result :: "HistorySnapshot \<Rightarrow> CheckResult \<Rightarrow> HistorySnapshot" where
  "push_result [] r = [(res_id r, [r])]"
| "push_result ((k, items) # rest) r =
     (if k = res_id r then (k, items @ [r]) # rest else (k, items) # push_result rest r)"

definition sort_and_slice :: "HistorySnapshot \<Rightarrow> HistorySnapshot" where
  "sort_and_slice history =
     map (\<lambda>(key, items). (key, take MAX_POINTS_PER_PROVIDER (sort_cmp newest_first items)))
       history"

definition mapRowsToSnapshot :: "RpcHistoryRow list option \<Rightarrow> HistorySnapshot" where
  "mapRowsToSnapshot rows =
     (case rows of
        None \<Rightarrow> []
      | Some rs \<Rightarrow>
          if length rs = 0 then []
          else sort_and_slice (foldl push_result [] (map row_to_result rs)))"

text \<open>Newest first, with and without ties.\<close>

fun descending :: "CheckResult list \<Rightarrow> bool" where
  "descending [] = True"
| "descending [x] = True"
| "descending (x # y # ys) = (checkedAt x \<ge> checkedAt y \<and> descending (y # ys))"

fun strictly_descending :: "CheckResult list \<Rightarrow> bool" where
  "strictly_descending [] = True"
| "strictly_descending [x] = True"
| "strictly_descending (x # y # ys) =
     (checkedAt x > checkedAt y \<and> strictly_descending (y # ys))"

text \<open>Each key once, with a list that is not empty and holds results of that id only.\<close>

definition keyed :: "HistorySnapshot \<Rightarrow> bool" where
  "keyed h = (distinct (map fst h)
     \<and> (\<forall>(k, items)\<in>set h. items \<noteq> [] \<and> (\<forall>r\<in>set items. res_id r = k)))"

definition rows_of :: "RpcHistoryRow list option \<Rightarrow> RpcHistoryRow list" where
  "rows_of rows = (case rows of None \<Rightarrow> [] | Some rs \<Rightarrow> rs)"

text \<open>A row of the given id, instant and latency, for the concrete inputs below.\<close>

definition row_at :: "string \<Rightarrow> int \<Rightarrow> int \<Rightarrow> RpcHistoryRow" where
  "row_at i t l =
     \<lparr> row_config_id = js i, row_status = Operational, row_latency_ms = Some l,
       row_ping_latency_ms = Some 40, row_checked_at = t, row_message = None,
       row_name = js ''A'', row_type = OpenAI, row_model = js ''gpt-4o-mini'',
       row_endpoint = None, row_group_name = None \<rparr>"

subsection \<open>Appending and pruning\<close>

text \<open>
  The table \<^verbatim>\<open>check_history\<close>, the requests sent to the backend and the lines written by
  \<^verbatim>\<open>logError\<close>, each oldest first.
\<close>

record HistoryRecord =
  rec_id :: nat
  rec_config_id :: jsstring
  rec_status :: HealthStatus
  rec_latency_ms :: "int option"
  rec_ping_latency_ms :: "int option"
  rec_checked_at :: int
  rec_message :: jsstring

datatype StoreOp =
  OpCreateClient
| OpInsert "CheckResult list"
| OpRpcPrune nat
| OpSelectHistory
| OpDelete "nat list"

record Store =
  check_history :: "HistoryRecord list"
  next_id :: nat
  issued :: "StoreOp list"
  logged :: "jsstring list"

text \<open>
  How the backend answers: the message of the error of each request, if it fails, and what
  the stored procedure \<^verbatim>\<open>prune_check_history\<close> leaves in the table.
\<close>

record Backend =
  insert_error :: "jsstring option"
  prune_rpc_error :: "jsstring option"
  prune_rpc :: "nat \<Rightarrow> HistoryRecord list \<Rightarrow> HistoryRecord list"
  select_error :: "jsstring option"
  delete_error :: "jsstring option"

definition RPC_RECENT_HISTORY :: jsstring where
  "RPC_RECENT_HISTORY = js ''get_recent_check_history''"

definition RPC_PRUNE_HISTORY :: jsstring where
  "RPC_PRUNE_HISTORY = js ''prune_check_history''"

definition isMissingFunctionError :: "jsstring option \<Rightarrow> bool" where
  "isMissingFunctionError error =
     (case error of
        None \<Rightarrow> False
      | Some msg \<Rightarrow>
          if msg = [] then False
          else str_includes msg RPC_RECENT_HISTORY \<or> str_includes msg RPC_PRUNE_HISTORY)"

definition issue :: "StoreOp \<Rightarrow> Store \<Rightarrow> Store" where
  "issue op st = st\<lparr> issued := issued st @ [op] \<rparr>"

definition logError :: "jsstring \<Rightarrow> Store \<Rightarrow> Store" where
  "logError line st = st\<lparr> logged := logged st @ [line] \<rparr>"

text \<open>
  The loop of \<^verbatim>\<open>fallbackPruneHistory\<close> over the selected records, with the map \<^verbatim>\<open>seen\<close>
  and the array \<^verbatim>\<open>deleteIds\<close>.
\<close>

fun collect_delete_ids ::
  "nat \<Rightarrow> HistoryRecord list \<Rightarrow> (jsstring \<Rightarrow> nat option) \<Rightarrow> nat list \<Rightarrow> nat list" where
  "collect_delete_ids limit [] seen deleteIds = deleteIds"
| "collect_delete_ids limit (r # rs) seen deleteIds =
     (let count = (case seen (rec_config_id r) of None \<Rightarrow> 0 | Some c \<Rightarrow> c) in
      if count \<ge> limit then collect_delete_ids limit rs seen (deleteIds @ [rec_id r])
      else collect_delete_ids limit rs (seen(rec_config_id r \<mapsto> count + 1)) deleteIds)"

text \<open>Code-unit order of two strings, the order of \<^verbatim>\<open>Array.prototype.sort\<close> without a comparator.\<close>

fun compare_code_units :: "jsstring \<Rightarrow> jsstring \<Rightarrow> int" where
  "compare_code_units [] [] = 0"
| "compare_code_units [] (y # ys) = - 1"
| "compare_code_units (x # xs) [] = 1"
| "compare_code_units (x # xs) (y # ys) =
     (if x < y then - 1 else if y < x then 1 else compare_code_units xs ys)"

text \<open>
  The query of the fallback: \<^verbatim>\<open>.order("config_id").order("checked_at", {ascending: false})\<close>.
\<close>

definition select_for_prune :: "HistoryRecord list \<Rightarrow> HistoryRecord list" where
  "select_for_prune tbl =
     sort_cmp (\<lambda>a b. compare_code_units (rec_config_id a) (rec_config_id b))
       (sort_cmp (\<lambda>a b. rec_checked_at b - rec_checked_at a) tbl)"

definition fallbackPruneHistory :: "Backend \<Rightarrow> nat \<Rightarrow> Store \<Rightarrow> Store" where
  "fallbackPruneHistory be limit st =
     (let st1 = issue OpSelectHistory st in
      case select_error be of
        Some msg \<Rightarrow> logError msg st1
      | None \<Rightarrow>
          let deleteIds =
                collect_delete_ids limit (select_for_prune (check_history st1)) Map.empty []
          in if length deleteIds = 0 then st1
             else
               let st2 = issue (OpDelete deleteIds) st1 in
               case delete_error be of
                 Some msg \<Rightarrow> logError msg st2
               | None \<Rightarrow>
                   st2\<lparr> check_history :=
                          filter (\<lambda>r. rec_id r \<notin> set deleteIds) (check_history st2) \<rparr>)"

definition pruneInternal :: "Backend \<Rightarrow> nat \<Rightarrow> Store \<Rightarrow> Store" where
  "pruneInternal be limit st =
     (let st1 = issue (OpRpcPrune limit) st in
      case prune_rpc_error be of
        None \<Rightarrow> st1\<lparr> check_history := prune_rpc be limit (check_history st1) \<rparr>
      | Some msg \<Rightarrow>
          let st2 = logError msg st1 in
          if isMissingFunctionError (Some msg) then fallbackPruneHistory be limit st2
          else st2)"

text \<open>The records of an insert, numbered by the table's sequence.\<close>

fun insert_records :: "nat \<Rightarrow> CheckResult list \<Rightarrow> HistoryRecord list" where
  "insert_records n [] = []"
| "insert_records n (result # rest) =
     \<lparr> rec_id = n,
       rec_config_id = res_id result,
       rec_status = status result,
       rec_latency_ms = latencyMs result,
       rec_ping_latency_ms = pingLatencyMs result,
       rec_checked_at = checkedAt result,
       rec_message = message result \<rparr> # insert_records (Suc n) rest"

text \<open>\<^verbatim>\<open>SnapshotStore.append\<close> and \<^verbatim>\<open>SnapshotStore.prune\<close>.\<close>

definition store_append :: "Backend \<Rightarrow> CheckResult list \<Rightarrow> Store \<Rightarrow> Store" where
  "store_append be results st =
     (if length results = 0 then st
      else
        let st1 = issue OpCreateClient st;
            st2 = issue (OpInsert results) st1
        in case insert_error be of
             Some msg \<Rightarrow> logError msg st2
           | None \<Rightarrow>
               pruneInternal be MAX_POINTS_PER_PROVIDER
                 (st2\<lparr> check_history :=
                         check_history st2 @ insert_records (next_id st2) results,
                       next_id := next_id st2 + length results \<rparr>))"

definition store_prune :: "Backend \<Rightarrow> nat option \<Rightarrow> Store \<Rightarrow> Store" where
  "store_prune be limit st =
     pruneInternal be (case limit of None \<Rightarrow> MAX_POINTS_PER_PROVIDER | Some l \<Rightarrow> l)
       (issue OpCreateClient st)"

section \<open>Timelines (lib/core/health-snapshot-service.ts)\<close>

text \<open>The cache of the official-status poller, read by \<^verbatim>\<open>getOfficialStatus\<close>.\<close>

type_synonym OfficialStatusCache = "ProviderType \<Rightarrow> OfficialStatusResult option"

definition attachOfficialStatus :: "OfficialStatusCache \<Rightarrow> CheckResult \<Rightarrow> CheckResult" where
  "attachOfficialStatus cache result =
     (case cache (res_type result) of
        None \<Rightarrow> result
      | Some official \<Rightarrow> result\<lparr> officialStatus := Some official \<rparr>)"


text \<open>\<^verbatim>\<open>value || null\<close> on an optional string.\<close>

definition or_null :: "jsstring option \<Rightarrow> jsstring option" where
  "or_null v = (case v of None \<Rightarrow> None | Some s \<Rightarrow> if s = [] then None else Some s)"




text \<open>A configuration and a stored result, for the concrete inputs below.\<close>

definition config_of :: "string \<Rightarrow> string \<Rightarrow> bool \<Rightarrow> string option \<Rightarrow> ProviderConfig" where
  "config_of i n m g =
     \<lparr> cfg_id = js i, cfg_name = js n, cfg_type = OpenAI, cfg_endpoint = None,
       cfg_model = js ''gpt-4o-mini'', apiKey = js ''sk-test'', is_maintenance = m,
       cfg_groupName = map_option js g \<rparr>"

definition stored_result :: "string \<Rightarrow> int \<Rightarrow> CheckResult" where
  "stored_result i t = row_to_result (row_at i t 800)"

section \<open>Snapshot service (lib/core/health-snapshot-service.ts)\<close>

text \<open>
  \<^verbatim>\<open>allowedIds\<close> is a \<^verbatim>\<open>Set<string>\<close>: its members, each once, in insertion order.
\<close>

record SnapshotScope =
  cacheKey :: jsstring
  pollIntervalMs :: int
  activeConfigs :: "ProviderConfig list"
  allowedIds :: "jsstring list"

text \<open>
  \<^verbatim>\<open>PingCacheEntry\<close>. A promise is known by its identity \<open>'p\<close>; an async function that
  returns a promise settles as that promise does.
\<close>

record 'p PingCacheEntry =
  lastPingAt :: int
  inflight :: "'p option"
  history :: "HistorySnapshot option"

datatype 'p RefreshStep =
  StepReturn HistorySnapshot
| StepAwait 'p
| StepInstall 'p

text \<open>The test \<^verbatim>\<open>cacheEntry.history && now - cacheEntry.lastPingAt < scope.pollIntervalMs\<close>.\<close>

definition fresh_history :: "SnapshotScope \<Rightarrow> int \<Rightarrow> 'p PingCacheEntry \<Rightarrow> bool" where
  "fresh_history scope now entry =
     (history entry \<noteq> None \<and> now - lastPingAt entry < pollIntervalMs scope)"

text \<open>
  \<^verbatim>\<open>refreshHistory\<close> up to the point where it returns or has installed its promise:
  \<open>now\<close> is what \<^verbatim>\<open>Date.now()\<close> reads, \<open>promise\<close> the promise of the refresh that the
  call starts when it starts one. The result says what the call returns, or that it started
  the probes, and gives the cache entry it leaves.
\<close>

definition refreshHistory ::
  "SnapshotScope \<Rightarrow> int \<Rightarrow> 'p \<Rightarrow> 'p PingCacheEntry \<Rightarrow> 'p RefreshStep \<times> 'p PingCacheEntry" where
  "refreshHistory scope now promise entry =
     (if length (activeConfigs scope) = 0 then (StepReturn [], entry)
      else if fresh_history scope now entry
        then (case history entry of
                Some h \<Rightarrow> (StepReturn h, entry)
              | None \<Rightarrow> (StepReturn [], entry))
      else (case inflight entry of
              Some p \<Rightarrow> (StepAwait p, entry)
            | None \<Rightarrow> (StepInstall promise, entry\<lparr> inflight := Some promise \<rparr>)))"

text \<open>
  The end of the installed refresh: its body stores the history it read back and the
  instant, and the \<^verbatim>\<open>finally\<close> block clears \<^verbatim>\<open>inflight\<close> if it still holds this promise.
\<close>

definition inflight_settled ::
  "HistorySnapshot \<Rightarrow> int \<Rightarrow> 'p PingCacheEntry \<Rightarrow> 'p PingCacheEntry" where
  "inflight_settled nextHistory doneAt entry =
     entry\<lparr> history := Some nextHistory, lastPingAt := doneAt \<rparr>"

definition refresh_finally :: "'p \<Rightarrow> 'p PingCacheEntry \<Rightarrow> 'p PingCacheEntry" where
  "refresh_finally promise entry =
     (if inflight entry = Some promise then entry\<lparr> inflight := None \<rparr> else entry)"

text \<open>
  \<^verbatim>\<open>loadSnapshotForScope\<close>, with \<open>stored\<close> the history that \<^verbatim>\<open>readHistoryForScope\<close>
  reads before the refresh mode is looked at.
\<close>

definition loadSnapshotForScope ::
  "SnapshotScope \<Rightarrow> RefreshMode \<Rightarrow> HistorySnapshot \<Rightarrow> int \<Rightarrow> 'p \<Rightarrow> 'p PingCacheEntry
     \<Rightarrow> 'p RefreshStep \<times> 'p PingCacheEntry" where
  "loadSnapshotForScope scope refreshMode stored now promise entry =
     (if length (allowedIds scope) = 0 then (StepReturn [], entry)
      else if refreshMode = Always then refreshHistory scope now promise entry
      else if refreshMode = Missing \<and> length (activeConfigs scope) > 0 \<and> length stored = 0
        then refreshHistory scope now promise entry
      else (StepReturn stored, entry))"

text \<open>A cache entry and a scope, for the concrete inputs below.\<close>

definition entry_of :: "int \<Rightarrow> nat option \<Rightarrow> HistorySnapshot option \<Rightarrow> nat PingCacheEntry" where
  "entry_of t p h = \<lparr> lastPingAt = t, inflight = p, history = h \<rparr>"

definition scope_of :: "ProviderConfig list \<Rightarrow> SnapshotScope" where
  "scope_of cfgs =
     \<lparr> cacheKey = js ''dashboard:60000:a'', pollIntervalMs = 60000, activeConfigs = cfgs,
       allowedIds = map cfg_id cfgs \<rparr>"

section \<open>Configurations (lib/database/config-loader.ts)\<close>





section \<open>Group data (lib/core/group-data.ts) and its route\<close>
















section \<open>Regular expressions of the sources\<close>

text \<open>
  The patterns of the sources carry the flag \<^verbatim>\<open>i\<close> and not \<^verbatim>\<open>u\<close>. Two code units then
  match when their canonical forms are equal, the canonical form of a code unit being its
  upper case, except that a unit outside ASCII never takes an ASCII canonical form. Every
  pattern character of the sources is ASCII, so on the input side only the ASCII letters are
  ever folded.
\<close>

definition canon :: "nat \<Rightarrow> nat" where
  "canon c = (if 97 \<le> c \<and> c \<le> 122 then c - 32 else c)"

text \<open>
  A pattern character, or a class \<^verbatim>\<open>[lo-hi]\<close> of characters that are not letters (the only
  class of the sources outside the directive is \<^verbatim>\<open>[1-9]\<close>).
\<close>

datatype atom = Lit nat | Range nat nat

fun atom_match :: "atom \<Rightarrow> nat \<Rightarrow> bool" where
  "atom_match (Lit p) c = (canon c = canon p)"
| "atom_match (Range lo hi) c = (lo \<le> c \<and> c \<le> hi)"

definition lits :: "string \<Rightarrow> atom list" where
  "lits s = map (\<lambda>ch. Lit (of_char ch)) s"

text \<open>The atoms match at the start of the string.\<close>

fun match_here :: "atom list \<Rightarrow> jsstring \<Rightarrow> bool" where
  "match_here [] s = True"
| "match_here (a # as) [] = False"
| "match_here (a # as) (c # cs) = (atom_match a c \<and> match_here as cs)"

text \<open>\<^verbatim>\<open>\b\<close>: exactly one of the two neighbours is a word character \<^verbatim>\<open>[A-Za-z0-9_]\<close>.\<close>

definition is_word_char :: "nat option \<Rightarrow> bool" where
  "is_word_char u =
     (case u of
        None \<Rightarrow> False
      | Some c \<Rightarrow> (48 \<le> c \<and> c \<le> 57) \<or> (65 \<le> c \<and> c \<le> 90) \<or> c = 95 \<or> (97 \<le> c \<and> c \<le> 122))"

definition word_boundary :: "nat option \<Rightarrow> nat option \<Rightarrow> bool" where
  "word_boundary prev next = (is_word_char prev \<noteq> is_word_char next)"

text \<open>
  \<^verbatim>\<open>RegExp.prototype.test\<close> for a pattern that is a sequence of atoms, after \<^verbatim>\<open>\b\<close> when
  \<open>wb\<close> is set: the positions are tried from left to right, \<open>prev\<close> being the code unit
  left of the position.
\<close>

fun regex_search :: "bool \<Rightarrow> atom list \<Rightarrow> nat option \<Rightarrow> jsstring \<Rightarrow> bool" where
  "regex_search wb atoms prev [] =
     ((wb \<longrightarrow> word_boundary prev None) \<and> match_here atoms [])"
| "regex_search wb atoms prev (c # cs) =
     (((wb \<longrightarrow> word_boundary prev (Some c)) \<and> match_here atoms (c # cs))
      \<or> regex_search wb atoms (Some c) cs)"

definition regex_test :: "bool \<times> atom list \<Rightarrow> jsstring \<Rightarrow> bool" where
  "regex_test re s = regex_search (fst re) (snd re) None s"

section \<open>Probes (lib/providers)\<close>

subsection \<open>What a probe meets\<close>

text \<open>
  A thrown value: an error with its \<^verbatim>\<open>name\<close> and \<^verbatim>\<open>message\<close>, and whether it is an
  instance of the SDK's \<^verbatim>\<open>APIUserAbortError\<close>; \<open>None\<close> is a thrown value that has neither
  (\<^verbatim>\<open>null\<close>, \<^verbatim>\<open>undefined\<close>).
\<close>

record JsError =
  err_name :: jsstring
  err_message :: jsstring
  err_user_abort :: bool

type_synonym thrown = "JsError option"

text \<open>
  An awaited operation: it settles after so many milliseconds, counted from \<^verbatim>\<open>startedAt\<close>
  as \<^verbatim>\<open>Date.now()\<close> counts them, by throwing or with a value; or it never settles.
\<close>

datatype 'a awaited = Settles int "thrown + 'a" | Pending

text \<open>
  Every probe arms \<^verbatim>\<open>setTimeout(() => controller.abort(), DEFAULT_TIMEOUT_MS)\<close> and hands
  the signal to its transport. Where the transport is \<^verbatim>\<open>fetch\<close>, an operation that has not
  settled when the deadline is reached is rejected, with the abort error of \<^verbatim>\<open>fetch\<close> (one
  that would settle in the very millisecond of the deadline counts as not settled). What
  the SDKs do with the signal is described with the probes built on them.
\<close>

definition await_until :: "int \<Rightarrow> thrown \<Rightarrow> 'a awaited \<Rightarrow> thrown + (int \<times> 'a)" where
  "await_until deadline abortError op =
     (case op of
        Pending \<Rightarrow> Inl abortError
      | Settles t outcome \<Rightarrow>
          if t < deadline
          then (case outcome of Inl e \<Rightarrow> Inl e | Inr v \<Rightarrow> Inr (t, v))
          else Inl abortError)"

text \<open>
  Modelled from the spec: the table \<^verbatim>\<open>DEFAULT_ENDPOINTS\<close> of lib/types, which is not among
  the sources. The spec lists the default endpoint of each provider type.
\<close>

definition DEFAULT_ENDPOINTS :: "ProviderType \<Rightarrow> jsstring" where
  "DEFAULT_ENDPOINTS t =
     (case t of
        OpenAI \<Rightarrow> js ''https://api.openai.com/v1/chat/completions''
      | Gemini \<Rightarrow> js ''https://generativelanguage.googleapis.com/v1beta''
      | Anthropic \<Rightarrow> js ''https://api.anthropic.com/v1/messages'')"

text \<open>\<^verbatim>\<open>a || b\<close> on strings: the empty string is falsy, as \<^verbatim>\<open>null\<close> and \<^verbatim>\<open>undefined\<close> are.\<close>

definition str_or :: "jsstring option \<Rightarrow> jsstring \<Rightarrow> jsstring" where
  "str_or a b = (case or_null a of None \<Rightarrow> b | Some s \<Rightarrow> s)"

definition DEGRADED_THRESHOLD_MS :: int where
  "DEGRADED_THRESHOLD_MS = 6000"

definition msg_timeout :: jsstring where
  "msg_timeout = [35831, 27714, 36229, 26102]"

definition msg_unknown_error :: jsstring where
  "msg_unknown_error = [26410, 30693, 38169, 35823]"

definition msg_empty_body :: jsstring where
  "msg_empty_body = [21709, 24212, 20307, 20026, 31354]"

text \<open>
  The two messages of a successful probe, \<^verbatim>\<open>`... (${latencyMs}ms)`\<close> and
  \<^verbatim>\<open>`... ${latencyMs}ms`\<close>.
\<close>

definition msg_stream_ok :: "int \<Rightarrow> jsstring" where
  "msg_stream_ok latency =
     [27969, 24335, 21709, 24212, 27491, 24120, 32, 40] @ show_int latency @ js ''ms)''"

definition msg_slow :: "int \<Rightarrow> jsstring" where
  "msg_slow latency =
     [21709, 24212, 25104, 21151, 20294, 32791, 26102, 32] @ show_int latency @ js ''ms''"

text \<open>
  The result every probe builds after a successful stream, and the one it builds in its
  \<^verbatim>\<open>catch\<close> block; \<open>ping\<close> is what \<^verbatim>\<open>measureEndpointPing\<close> resolves to and \<open>at\<close> what
  \<^verbatim>\<open>new Date()\<close> reads.
\<close>

definition success_result ::
  "ProviderConfig \<Rightarrow> jsstring \<Rightarrow> int \<Rightarrow> int option \<Rightarrow> int \<Rightarrow> CheckResult" where
  "success_result config endpoint latency ping at =
     (let st = (if latency \<le> DEGRADED_THRESHOLD_MS then Operational else Degraded);
          msg = (if st = Degraded then msg_slow latency else msg_stream_ok latency)
      in \<lparr> res_id = cfg_id config, res_name = cfg_name config, res_type = cfg_type config,
           res_endpoint = Some endpoint, res_model = cfg_model config, status = st,
           latencyMs = Some latency, pingLatencyMs = ping, checkedAt = at, message = msg,
           groupName = None, officialStatus = None \<rparr>)"

definition failure_result ::
  "ProviderConfig \<Rightarrow> jsstring \<Rightarrow> jsstring \<Rightarrow> int option \<Rightarrow> int \<Rightarrow> CheckResult" where
  "failure_result config endpoint msg ping at =
     \<lparr> res_id = cfg_id config, res_name = cfg_name config, res_type = cfg_type config,
       res_endpoint = Some endpoint, res_model = cfg_model config, status = Failed,
       latencyMs = None, pingLatencyMs = ping, checkedAt = at, message = msg,
       groupName = None, officialStatus = None \<rparr>"

definition thrown_name :: "thrown \<Rightarrow> jsstring option" where
  "thrown_name e = map_option err_name e"

text \<open>\<^verbatim>\<open>err?.message || ""\<close> and \<^verbatim>\<open>err?.message || "..."\<close>.\<close>

definition thrown_message_or :: "thrown \<Rightarrow> jsstring \<Rightarrow> jsstring" where
  "thrown_message_or e dflt = str_or (map_option err_message e) dflt"

definition REQUEST_ABORTED_MESSAGE :: "bool \<times> atom list" where
  "REQUEST_ABORTED_MESSAGE = (False, lits ''request was aborted'')"

subsection \<open>The generic stream check (stream-check.ts)\<close>

definition stream_DEFAULT_TIMEOUT_MS :: int where
  "stream_DEFAULT_TIMEOUT_MS = 45000"

record StreamCheckParams =
  url :: jsstring
  displayEndpoint :: "jsstring option"

text \<open>
  The reply of \<^verbatim>\<open>fetch\<close>: \<^verbatim>\<open>response.ok\<close>, \<^verbatim>\<open>response.status\<close>, how
  \<^verbatim>\<open>response.text()\<close> settles, whether \<^verbatim>\<open>response.body\<close> is there, and how
  \<^verbatim>\<open>params.parseStream(reader)\<close> settles.
\<close>

record HttpReply =
  reply_ok :: bool
  reply_status :: nat
  reply_text :: "jsstring awaited"
  reply_has_body :: bool
  reply_stream :: "unit awaited"

record StreamWorld =
  fetched :: "HttpReply awaited"
  fetch_abort_error :: thrown
  stream_ping :: "int option"
  stream_result_at :: int

definition stream_catch ::
  "ProviderConfig \<Rightarrow> StreamCheckParams \<Rightarrow> StreamWorld \<Rightarrow> thrown \<Rightarrow> CheckResult" where
  "stream_catch config params w err =
     (let isAbortError =
            (thrown_name err = Some (js ''AbortError'')
             \<or> regex_test REQUEST_ABORTED_MESSAGE (thrown_message_or err []));
          msg = (if isAbortError then msg_timeout
                 else thrown_message_or err msg_unknown_error)
      in failure_result config (str_or (displayEndpoint params) (url params)) msg
           (stream_ping w) (stream_result_at w))"

text \<open>\<open>extractMessage\<close> is the helper of lib/utils, which is not among the sources.\<close>

definition runStreamCheck ::
  "(jsstring \<Rightarrow> jsstring) \<Rightarrow> ProviderConfig \<Rightarrow> StreamCheckParams \<Rightarrow> StreamWorld
     \<Rightarrow> CheckResult" where
  "runStreamCheck extractMessage config params w =
     (case await_until stream_DEFAULT_TIMEOUT_MS (fetch_abort_error w) (fetched w) of
        Inl err \<Rightarrow> stream_catch config params w err
      | Inr (respondedAt, response) \<Rightarrow>
          if \<not> reply_ok response then
            (case await_until stream_DEFAULT_TIMEOUT_MS (fetch_abort_error w)
                    (reply_text response) of
               Inl err \<Rightarrow> stream_catch config params w err
             | Inr (textAt, errorBody) \<Rightarrow>
                 (failure_result config (str_or (displayEndpoint params) (url params))
                    (str_or (Some (extractMessage errorBody))
                       (js ''HTTP '' @ digits (reply_status response)))
                    (stream_ping w) (stream_result_at w))
                 \<lparr> latencyMs := Some respondedAt \<rparr>)
          else if \<not> reply_has_body response then
            stream_catch config params w
              (Some \<lparr> err_name = js ''Error'', err_message = msg_empty_body,
                      err_user_abort = False \<rparr>)
          else
            (case await_until stream_DEFAULT_TIMEOUT_MS (fetch_abort_error w)
                    (reply_stream response) of
               Inl err \<Rightarrow> stream_catch config params w err
             | Inr (parsedAt, u) \<Rightarrow>
                 success_result config (str_or (displayEndpoint params) (url params))
                   parsedAt (stream_ping w) (stream_result_at w)))"

subsection \<open>The probes built on a vendor SDK\<close>

text \<open>
  What an SDK probe meets: the moment at which \<^verbatim>\<open>create\<close> resolves with the stream (if the
  response ever arrives), how the request and the reading of its stream settle when nothing
  aborts them, the ping and the clock.
\<close>

record SdkWorld =
  sdk_opened :: "int option"
  sdk_stream :: "unit awaited"
  sdk_ping :: "int option"
  sdk_result_at :: int

text \<open>
  The error with which the SDK rejects a request that its signal aborts: an
  \<^verbatim>\<open>APIUserAbortError\<close>, whose name is \<open>Error\<close> and whose message is \<open>Request was aborted.\<close>
\<close>

definition APIUserAbortError :: thrown where
  "APIUserAbortError =
     Some \<lparr> err_name = js ''Error'', err_message = js ''Request was aborted.'',
            err_user_abort = True \<rparr>"

text \<open>
  What \<^verbatim>\<open>controller.abort()\<close> does to a probe that has not settled at the deadline. A
  request that still waits for its response is rejected with the abort error of the SDK.
  The iterator of a stream that is open ends without throwing: the loop over the stream
  (or the \<^verbatim>\<open>iterator.next()\<close>) is left normally and the code after it runs, at the deadline.
\<close>

definition sdk_aborted :: "int \<Rightarrow> SdkWorld \<Rightarrow> thrown + int" where
  "sdk_aborted deadline w =
     (case sdk_opened w of
        None \<Rightarrow> Inl APIUserAbortError
      | Some openedAt \<Rightarrow>
          if openedAt < deadline then Inr deadline else Inl APIUserAbortError)"

text \<open>
  How the \<^verbatim>\<open>try\<close> block of an SDK probe ends: with the error thrown into its \<^verbatim>\<open>catch\<close>
  block, or with the elapsed time at which the code after the reading runs.
\<close>

definition sdk_settled :: "int \<Rightarrow> SdkWorld \<Rightarrow> thrown + int" where
  "sdk_settled deadline w =
     (case sdk_stream w of
        Pending \<Rightarrow> sdk_aborted deadline w
      | Settles t outcome \<Rightarrow>
          if t < deadline then (case outcome of Inl err \<Rightarrow> Inl err | Inr u \<Rightarrow> Inr t)
          else sdk_aborted deadline w)"

text \<open>The result of an SDK probe, given its deadline and how its \<^verbatim>\<open>catch\<close> block words an error.\<close>

definition sdk_probe ::
  "int \<Rightarrow> (thrown \<Rightarrow> jsstring) \<Rightarrow> ProviderType \<Rightarrow> ProviderConfig \<Rightarrow> SdkWorld \<Rightarrow> CheckResult" where
  "sdk_probe deadline wording provider config w =
     (let shownEndpoint = str_or (cfg_endpoint config) (DEFAULT_ENDPOINTS provider) in
      case sdk_settled deadline w of
        Inl err \<Rightarrow>
          failure_result config shownEndpoint (wording err) (sdk_ping w) (sdk_result_at w)
      | Inr latency \<Rightarrow>
          success_result config shownEndpoint latency (sdk_ping w) (sdk_result_at w))"

text \<open>The wording \<^verbatim>\<open>err?.name === "AbortError" ? ... : err?.message || ...\<close>.\<close>

definition abort_name_message :: "thrown \<Rightarrow> jsstring" where
  "abort_name_message err =
     (if thrown_name err = Some (js ''AbortError'') then msg_timeout
      else thrown_message_or err msg_unknown_error)"

text \<open>The OpenAI probe (\<^verbatim>\<open>checkOpenAI\<close>).\<close>

definition openai_DEFAULT_TIMEOUT_MS :: int where
  "openai_DEFAULT_TIMEOUT_MS = 15000"

definition checkOpenAI :: "ProviderConfig \<Rightarrow> SdkWorld \<Rightarrow> CheckResult" where
  "checkOpenAI config w =
     sdk_probe openai_DEFAULT_TIMEOUT_MS abort_name_message OpenAI config w"

text \<open>The Anthropic probe of lib/providers/anthropic.ts (\<^verbatim>\<open>checkAnthropic\<close>).\<close>

definition anthropic_DEFAULT_TIMEOUT_MS :: int where
  "anthropic_DEFAULT_TIMEOUT_MS = 45000"

definition isAbortLikeError :: "thrown \<Rightarrow> bool" where
  "isAbortLikeError error =
     (case error of
        None \<Rightarrow> False
      | Some e \<Rightarrow>
          if err_name e = js ''AbortError'' then True
          else if err_user_abort e then True
          else regex_test REQUEST_ABORTED_MESSAGE (str_or (Some (err_message e)) []))"

definition getAnthropicErrorMessage :: "thrown \<Rightarrow> jsstring" where
  "getAnthropicErrorMessage error =
     (if isAbortLikeError error then msg_timeout
      else thrown_message_or error msg_unknown_error)"

definition checkAnthropic :: "ProviderConfig \<Rightarrow> SdkWorld \<Rightarrow> CheckResult" where
  "checkAnthropic config w =
     sdk_probe anthropic_DEFAULT_TIMEOUT_MS getAnthropicErrorMessage Anthropic config w"

text \<open>
  The sources hold a second file with an Anthropic probe, also \<^verbatim>\<open>checkAnthropic\<close>: it
  differs in its deadline and words an error as the OpenAI probe does.
\<close>

definition anthropic2_DEFAULT_TIMEOUT_MS :: int where
  "anthropic2_DEFAULT_TIMEOUT_MS = 15000"

definition checkAnthropic2 :: "ProviderConfig \<Rightarrow> SdkWorld \<Rightarrow> CheckResult" where
  "checkAnthropic2 config w =
     sdk_probe anthropic2_DEFAULT_TIMEOUT_MS abort_name_message Anthropic config w"

text \<open>Concrete worlds for the statements below.\<close>

definition abort_error :: thrown where
  "abort_error =
     Some \<lparr> err_name = js ''AbortError'', err_message = js ''This operation was aborted'',
            err_user_abort = False \<rparr>"

text \<open>
  A vendor whose response arrives at \<open>openedAt\<close> and whose request and stream would settle
  as \<open>s\<close>; \<open>sdk_world\<close> is the vendor whose response arrives after 300 ms.
\<close>

definition sdk_world_opening :: "int option \<Rightarrow> unit awaited \<Rightarrow> SdkWorld" where
  "sdk_world_opening openedAt s =
     \<lparr> sdk_opened = openedAt, sdk_stream = s, sdk_ping = Some 40,
       sdk_result_at = 1700000000000 \<rparr>"

definition sdk_world :: "unit awaited \<Rightarrow> SdkWorld" where
  "sdk_world s = sdk_world_opening (Some 300) s"

definition stream_world :: "HttpReply awaited \<Rightarrow> StreamWorld" where
  "stream_world f =
     \<lparr> fetched = f, fetch_abort_error = abort_error, stream_ping = Some 40,
       stream_result_at = 1700000000000 \<rparr>"

definition reply_streaming :: "int \<Rightarrow> HttpReply" where
  "reply_streaming t =
     \<lparr> reply_ok = True, reply_status = 200, reply_text = Pending, reply_has_body = True,
       reply_stream = Settles t (Inr ()) \<rparr>"

definition reply_error :: "nat \<Rightarrow> int \<Rightarrow> HttpReply" where
  "reply_error code t =
     \<lparr> reply_ok = False, reply_status = code, reply_text = Settles t (Inr []),
       reply_has_body = True, reply_stream = Pending \<rparr>"

definition stream_params :: StreamCheckParams where
  "stream_params =
     \<lparr> url = js ''https://generativelanguage.googleapis.com/v1beta'',
       displayEndpoint = None \<rparr>"

section \<open>Model preferences of the OpenAI probe\<close>

text \<open>
  \<^verbatim>\<open>String.prototype.trim\<close> removes white space and line terminators from both ends.
\<close>

definition is_trim_space :: "nat \<Rightarrow> bool" where
  "is_trim_space c =
     (c \<in> {9, 10, 11, 12, 13, 32, 160, 5760, 8232, 8233, 8239, 8287, 12288, 65279}
      \<or> (8192 \<le> c \<and> c \<le> 8202))"

definition js_trim :: "jsstring \<Rightarrow> jsstring" where
  "js_trim s = rev (dropWhile is_trim_space (rev (dropWhile is_trim_space s)))"

text \<open>The code units that \<^verbatim>\<open>.\<close> does not match.\<close>

definition is_line_terminator :: "nat \<Rightarrow> bool" where
  "is_line_terminator c = (c = 10 \<or> c = 13 \<or> c = 8232 \<or> c = 8233)"

datatype ReasoningEffort = EffortMinimal | EffortLow | EffortMedium | EffortHigh

definition EFFORT_ALIAS_MAP :: "(jsstring \<times> ReasoningEffort) list" where
  "EFFORT_ALIAS_MAP =
     [(js ''mini'', EffortMinimal), (js ''minimal'', EffortMinimal), (js ''low'', EffortLow),
      (js ''medium'', EffortMedium), (js ''high'', EffortHigh)]"

definition REASONING_MODEL_HINTS :: "(bool \<times> atom list) list" where
  "REASONING_MODEL_HINTS =
     [(False, lits ''codex''),
      (True, lits ''gpt-5''),
      (True, [Lit 111, Range 49 57]),
      (False, lits ''deepseek-r1''),
      (False, lits ''qwq'')]"

text \<open>The atoms match the whole string: a pattern word followed by \<^verbatim>\<open>$\<close>.\<close>

fun match_exact :: "atom list \<Rightarrow> jsstring \<Rightarrow> bool" where
  "match_exact [] [] = True"
| "match_exact [] (c # cs) = False"
| "match_exact (a # as) [] = False"
| "match_exact (a # as) (c # cs) = (atom_match a c \<and> match_exact as cs)"

text \<open>
  The directive pattern \<^verbatim>\<open>/^(.*?)[@#](mini|minimal|low|medium|high)$/i\<close>. Its tail
  \<^verbatim>\<open>[@#](mini|minimal|low|medium|high)$\<close> at a position gives the second group; the lazy
  \<^verbatim>\<open>(.*?)\<close> tries the shortest first group first and grows it by one code unit that is
  not a line terminator.
\<close>

definition effort_alternatives :: "string list" where
  "effort_alternatives = [''mini'', ''minimal'', ''low'', ''medium'', ''high'']"

definition directive_tail :: "jsstring \<Rightarrow> jsstring option" where
  "directive_tail rest =
     (case rest of
        [] \<Rightarrow> None
      | sep # word \<Rightarrow>
          if (atom_match (Lit 64) sep \<or> atom_match (Lit 35) sep)
             \<and> list_ex (\<lambda>alt. match_exact (lits alt) word) effort_alternatives
          then Some word else None)"

fun directive_from :: "jsstring \<Rightarrow> jsstring \<Rightarrow> (jsstring \<times> jsstring) option" where
  "directive_from base [] = None"
| "directive_from base (c # cs) =
     (case directive_tail (c # cs) of
        Some word \<Rightarrow> Some (base, word)
      | None \<Rightarrow>
          if is_line_terminator c then None else directive_from (base @ [c]) cs)"

record ModelPreferences =
  requestModel :: jsstring
  reasoningEffort :: "ReasoningEffort option"

text \<open>
  \<^verbatim>\<open>resolveModelPreferences\<close>. The second group holds ASCII letters only, so its
  \<^verbatim>\<open>toLowerCase()\<close> is the lower-casing of ASCII letters.
\<close>

definition resolveModelPreferences :: "jsstring \<Rightarrow> ModelPreferences" where
  "resolveModelPreferences model =
     (let trimmed = js_trim model in
      if trimmed = [] then \<lparr> requestModel = model, reasoningEffort = None \<rparr>
      else
        (case directive_from [] trimmed of
           Some (base, effortRaw) \<Rightarrow>
             \<lparr> requestModel = (if js_trim base = [] then trimmed else js_trim base),
               reasoningEffort = map_of EFFORT_ALIAS_MAP (ascii_lower effortRaw) \<rparr>
         | None \<Rightarrow>
             if list_ex (\<lambda>regex. regex_test regex trimmed) REASONING_MODEL_HINTS
             then \<lparr> requestModel = trimmed, reasoningEffort = Some EffortMedium \<rparr>
             else \<lparr> requestModel = trimmed, reasoningEffort = None \<rparr>))"

text \<open>
  The body of the request of \<^verbatim>\<open>checkOpenAI\<close>: \<^verbatim>\<open>reasoning_effort\<close> is set only when
  \<^verbatim>\<open>reasoningEffort\<close> is there.
\<close>

record ChatCompletionRequest =
  req_model :: jsstring
  req_messages :: "(jsstring \<times> jsstring) list"
  req_max_tokens :: nat
  req_temperature :: int
  req_stream :: bool
  req_reasoning_effort :: "ReasoningEffort option"

definition openai_requestPayload :: "ProviderConfig \<Rightarrow> ChatCompletionRequest" where
  "openai_requestPayload config =
     (let prefs = resolveModelPreferences (cfg_model config) in
      \<lparr> req_model = requestModel prefs,
        req_messages = [(js ''user'', js ''hi'')],
        req_max_tokens = 1,
        req_temperature = 0,
        req_stream = True,
        req_reasoning_effort = reasoningEffort prefs \<rparr>)"

text \<open>
  A directive in a (trimmed) model string: a first part free of line terminators, one of
  the two separators, and one of the five effort words in any case.
\<close>

definition is_directive :: "jsstring \<Rightarrow> jsstring \<Rightarrow> nat \<Rightarrow> jsstring \<Rightarrow> bool" where
  "is_directive s base sep word =
     (s = base @ sep # word \<and> (sep = 64 \<or> sep = 35)
      \<and> ascii_lower word \<in> set (map js effort_alternatives)
      \<and> list_all (\<lambda>c. \<not> is_line_terminator c) base)"

text \<open>A lower-case ASCII letter.\<close>

definition lower_letter :: "nat \<Rightarrow> bool" where
  "lower_letter p = (97 \<le> p \<and> p \<le> 122)"

section \<open>Properties\<close>

declare digits.simps [simp del]

lemma digits_small: "n < 10 \<Longrightarrow> digits n = [48 + n]"
  by (simp add: digits.simps)

lemma digits_big: "\<not> n < 10 \<Longrightarrow> digits n = digits (n div 10) @ [48 + n mod 10]"
  by (subst digits.simps) simp

subsection \<open>Sorting\<close>

lemma set_insert_cmp [simp]: "set (insert_cmp cmp x xs) = insert x (set xs)"
  by (induction xs) auto

lemma length_insert_cmp [simp]: "length (insert_cmp cmp x xs) = Suc (length xs)"
  by (induction xs) auto

lemma set_sort_cmp [simp]: "set (sort_cmp cmp xs) = set xs"
  by (induction xs) (auto simp: sort_cmp_def)

lemma length_sort_cmp [simp]: "length (sort_cmp cmp xs) = length xs"
  by (induction xs) (auto simp: sort_cmp_def)

subsection \<open>Probes\<close>

lemma success_result_fields:
  "latencyMs (success_result config ep t ping at) = Some t"
  "status (success_result config ep t ping at) = (if t \<le> 6000 then Operational else Degraded)"
  "message (success_result config ep t ping at)
     = (if t \<le> 6000 then msg_stream_ok t else msg_slow t)"
  by (simp_all add: success_result_def DEGRADED_THRESHOLD_MS_def Let_def)

lemma failure_result_fields:
  "latencyMs (failure_result config ep msg ping at) = None"
  "status (failure_result config ep msg ping at) = Failed"
  "message (failure_result config ep msg ping at) = msg"
  by (simp_all add: failure_result_def)

lemma sdk_probe_success:
  assumes "sdk_stream w = Settles t (Inr ())" and "t < deadline"
  shows "sdk_probe deadline wording provider config w
           = success_result config (str_or (cfg_endpoint config) (DEFAULT_ENDPOINTS provider)) t
               (sdk_ping w) (sdk_result_at w)"
  using assms by (simp add: sdk_probe_def sdk_settled_def)

text \<open>
  The expiry of the deadline: before the response has arrived the probe fails with the
  wording of the abort error of the SDK; once the stream is open the probe takes the path
  of a success, with the deadline as its latency.
\<close>

lemma sdk_settled_expired:
  assumes "sdk_stream w = Pending \<or> (\<exists>t outcome. sdk_stream w = Settles t outcome \<and> deadline \<le> t)"
  shows "sdk_settled deadline w = sdk_aborted deadline w"
  using assms by (auto simp add: sdk_settled_def)

lemma sdk_probe_expired_unopened:
  assumes "sdk_stream w = Pending \<or> (\<exists>t outcome. sdk_stream w = Settles t outcome \<and> deadline \<le> t)"
    and "sdk_opened w = None \<or> (\<exists>openedAt. sdk_opened w = Some openedAt \<and> deadline \<le> openedAt)"
  shows "sdk_probe deadline wording provider config w
           = failure_result config (str_or (cfg_endpoint config) (DEFAULT_ENDPOINTS provider))
               (wording APIUserAbortError) (sdk_ping w) (sdk_result_at w)"
  using assms(2) unfolding sdk_probe_def sdk_settled_expired [OF assms(1)]
  by (auto simp add: sdk_aborted_def)

lemma sdk_probe_expired_open:
  assumes "sdk_stream w = Pending \<or> (\<exists>t outcome. sdk_stream w = Settles t outcome \<and> deadline \<le> t)"
    and "sdk_opened w = Some openedAt" and "openedAt < deadline"
  shows "sdk_probe deadline wording provider config w
           = success_result config (str_or (cfg_endpoint config) (DEFAULT_ENDPOINTS provider))
               deadline (sdk_ping w) (sdk_result_at w)"
  using assms(2,3) unfolding sdk_probe_def sdk_settled_expired [OF assms(1)]
  by (simp add: sdk_aborted_def)

lemma runStreamCheck_success:
  assumes "fetched w = Settles t1 (Inr reply)" and "t1 < stream_DEFAULT_TIMEOUT_MS"
    and "reply_ok reply" and "reply_has_body reply"
    and "reply_stream reply = Settles t (Inr ())" and "t < stream_DEFAULT_TIMEOUT_MS"
  shows "runStreamCheck extractMessage config params w
           = success_result config (str_or (displayEndpoint params) (url params)) t
               (stream_ping w) (stream_result_at w)"
  using assms by (simp add: runStreamCheck_def await_until_def)

text \<open>
  Claim C3, as the code has it. When the streaming request of a probe succeeds \<open>t\<close>
  milliseconds after its start, before the deadline of that probe, the result carries the
  latency \<open>t\<close>; its status is \<open>operational\<close> when \<open>t \<le> 6000\<close> (6000 included) and
  \<open>degraded\<close> when \<open>t > 6000\<close>; its message is the phrase for that status with the number
  of milliseconds directly followed by \<open>ms\<close>, as in \<open>(800ms)\<close> and \<open>9200ms\<close>. This holds
  for the generic stream check, the OpenAI probe and both Anthropic probes.
\<close>

theorem probe_success_classification:
  "(fetched w = Settles t1 (Inr reply) \<and> t1 < stream_DEFAULT_TIMEOUT_MS
      \<and> reply_ok reply \<and> reply_has_body reply
      \<and> reply_stream reply = Settles t (Inr ()) \<and> t < stream_DEFAULT_TIMEOUT_MS
     \<longrightarrow> latencyMs (runStreamCheck extractMessage config params w) = Some t
       \<and> status (runStreamCheck extractMessage config params w)
           = (if t \<le> 6000 then Operational else Degraded)
       \<and> message (runStreamCheck extractMessage config params w)
           = (if t \<le> 6000 then msg_stream_ok t else msg_slow t))
   \<and> (sdk_stream sw = Settles t (Inr ()) \<and> t < openai_DEFAULT_TIMEOUT_MS
     \<longrightarrow> latencyMs (checkOpenAI config sw) = Some t
       \<and> status (checkOpenAI config sw) = (if t \<le> 6000 then Operational else Degraded)
       \<and> message (checkOpenAI config sw) = (if t \<le> 6000 then msg_stream_ok t else msg_slow t))
   \<and> (sdk_stream sw = Settles t (Inr ()) \<and> t < anthropic_DEFAULT_TIMEOUT_MS
     \<longrightarrow> latencyMs (checkAnthropic config sw) = Some t
       \<and> status (checkAnthropic config sw) = (if t \<le> 6000 then Operational else Degraded)
       \<and> message (checkAnthropic config sw)
           = (if t \<le> 6000 then msg_stream_ok t else msg_slow t))
   \<and> (sdk_stream sw = Settles t (Inr ()) \<and> t < anthropic2_DEFAULT_TIMEOUT_MS
     \<longrightarrow> latencyMs (checkAnthropic2 config sw) = Some t
       \<and> status (checkAnthropic2 config sw) = (if t \<le> 6000 then Operational else Degraded)
       \<and> message (checkAnthropic2 config sw)
           = (if t \<le> 6000 then msg_stream_ok t else msg_slow t))"
proof (intro conjI impI)
  assume "fetched w = Settles t1 (Inr reply) \<and> t1 < stream_DEFAULT_TIMEOUT_MS
      \<and> reply_ok reply \<and> reply_has_body reply
      \<and> reply_stream reply = Settles t (Inr ()) \<and> t < stream_DEFAULT_TIMEOUT_MS"
  then have eq: "runStreamCheck extractMessage config params w
           = success_result config (str_or (displayEndpoint params) (url params)) t
               (stream_ping w) (stream_result_at w)"
    by (auto intro: runStreamCheck_success)
  show "latencyMs (runStreamCheck extractMessage config params w) = Some t"
    "status (runStreamCheck extractMessage config params w)
       = (if t \<le> 6000 then Operational else Degraded)"
    "message (runStreamCheck extractMessage config params w)
       = (if t \<le> 6000 then msg_stream_ok t else msg_slow t)"
    unfolding eq by (rule success_result_fields)+
next
  assume "sdk_stream sw = Settles t (Inr ()) \<and> t < openai_DEFAULT_TIMEOUT_MS"
  then have eq: "checkOpenAI config sw
      = success_result config (str_or (cfg_endpoint config) (DEFAULT_ENDPOINTS OpenAI)) t
          (sdk_ping sw) (sdk_result_at sw)"
    unfolding checkOpenAI_def by (auto intro: sdk_probe_success)
  show "latencyMs (checkOpenAI config sw) = Some t"
    "status (checkOpenAI config sw) = (if t \<le> 6000 then Operational else Degraded)"
    "message (checkOpenAI config sw) = (if t \<le> 6000 then msg_stream_ok t else msg_slow t)"
    unfolding eq by (rule success_result_fields)+
next
  assume "sdk_stream sw = Settles t (Inr ()) \<and> t < anthropic_DEFAULT_TIMEOUT_MS"
  then have eq: "checkAnthropic config sw
      = success_result config (str_or (cfg_endpoint config) (DEFAULT_ENDPOINTS Anthropic)) t
          (sdk_ping sw) (sdk_result_at sw)"
    unfolding checkAnthropic_def by (auto intro: sdk_probe_success)
  show "latencyMs (checkAnthropic config sw) = Some t"
    "status (checkAnthropic config sw) = (if t \<le> 6000 then Operational else Degraded)"
    "message (checkAnthropic config sw) = (if t \<le> 6000 then msg_stream_ok t else msg_slow t)"
    unfolding eq by (rule success_result_fields)+
next
  assume "sdk_stream sw = Settles t (Inr ()) \<and> t < anthropic2_DEFAULT_TIMEOUT_MS"
  then have eq: "checkAnthropic2 config sw
      = success_result config (str_or (cfg_endpoint config) (DEFAULT_ENDPOINTS Anthropic)) t
          (sdk_ping sw) (sdk_result_at sw)"
    unfolding checkAnthropic2_def by (auto intro: sdk_probe_success)
  show "latencyMs (checkAnthropic2 config sw) = Some t"
    "status (checkAnthropic2 config sw) = (if t \<le> 6000 then Operational else Degraded)"
    "message (checkAnthropic2 config sw) = (if t \<le> 6000 then msg_stream_ok t else msg_slow t)"
    unfolding eq by (rule success_result_fields)+
qed

lemma show_int_examples:
  "show_int 6000 = js ''6000''" "show_int 9200 = js ''9200''" "show_int 800 = js ''800''"
  by (simp_all add: show_int_def digits_small digits_big js_def)

lemma success_messages:
  "msg_stream_ok 6000
     = [27969, 24335, 21709, 24212, 27491, 24120, 32, 40, 54, 48, 48, 48, 109, 115, 41]"
  "msg_slow 9200 = [21709, 24212, 25104, 21151, 20294, 32791, 26102, 32, 57, 50, 48, 48, 109, 115]"
  by (simp_all add: msg_stream_ok_def msg_slow_def show_int_examples) (simp_all add: js_def)

theorem probe_success_classification_witness:
  "latencyMs (runStreamCheck (\<lambda>b. b) (config_of ''A'' ''A'' False None) stream_params
       (stream_world (Settles 300 (Inr (reply_streaming 6000))))) = Some 6000
   \<and> status (runStreamCheck (\<lambda>b. b) (config_of ''A'' ''A'' False None) stream_params
       (stream_world (Settles 300 (Inr (reply_streaming 6000))))) = Operational
   \<and> message (runStreamCheck (\<lambda>b. b) (config_of ''A'' ''A'' False None) stream_params
       (stream_world (Settles 300 (Inr (reply_streaming 6000)))))
       = [27969, 24335, 21709, 24212, 27491, 24120, 32, 40, 54, 48, 48, 48, 109, 115, 41]
   \<and> status (checkOpenAI (config_of ''A'' ''A'' False None) (sdk_world (Settles 6000 (Inr ()))))
       = Operational
   \<and> status (checkAnthropic (config_of ''A'' ''A'' False None)
        (sdk_world (Settles 6000 (Inr ())))) = Operational
   \<and> status (checkAnthropic2 (config_of ''A'' ''A'' False None)
        (sdk_world (Settles 6000 (Inr ())))) = Operational
   \<and> status (checkOpenAI (config_of ''A'' ''A'' False None) (sdk_world (Settles 9200 (Inr ()))))
       = Degraded
   \<and> message (checkOpenAI (config_of ''A'' ''A'' False None)
        (sdk_world (Settles 9200 (Inr ()))))
       = [21709, 24212, 25104, 21151, 20294, 32791, 26102, 32, 57, 50, 48, 48, 109, 115]
   \<and> status (checkAnthropic (config_of ''A'' ''A'' False None)
        (sdk_world (Settles 9200 (Inr ())))) = Degraded
   \<and> status (checkAnthropic2 (config_of ''A'' ''A'' False None)
        (sdk_world (Settles 9200 (Inr ())))) = Degraded"
  using probe_success_classification
      [where w = "stream_world (Settles 300 (Inr (reply_streaming 6000)))" and ?t1.0 = 300
         and reply = "reply_streaming 6000" and t = 6000 and extractMessage = "\<lambda>b. b"
         and config = "config_of ''A'' ''A'' False None" and params = stream_params
         and sw = "sdk_world (Settles 6000 (Inr ()))"]
    probe_success_classification
      [where w = "stream_world Pending" and ?t1.0 = 0
         and reply = "reply_streaming 9200" and t = 9200 and extractMessage = "\<lambda>b. b"
         and config = "config_of ''A'' ''A'' False None" and params = stream_params
         and sw = "sdk_world (Settles 9200 (Inr ()))"]
  by (simp add: stream_world_def sdk_world_def sdk_world_opening_def reply_streaming_def
        stream_DEFAULT_TIMEOUT_MS_def openai_DEFAULT_TIMEOUT_MS_def
        anthropic_DEFAULT_TIMEOUT_MS_def anthropic2_DEFAULT_TIMEOUT_MS_def success_messages)

text \<open>
  An SDK probe reports a failure exactly when it reports no latency, and a result of the
  generic stream check without latency is a failure.
\<close>

lemma sdk_probe_failed_iff:
  "status (sdk_probe deadline wording provider config w) = Failed
     \<longleftrightarrow> latencyMs (sdk_probe deadline wording provider config w) = None"
  by (simp add: sdk_probe_def success_result_def failure_result_def Let_def
        split: sum.splits)

lemma runStreamCheck_no_latency:
  "latencyMs (runStreamCheck extractMessage config params w) = None
     \<Longrightarrow> status (runStreamCheck extractMessage config params w) = Failed"
  by (auto simp add: runStreamCheck_def stream_catch_def success_result_def failure_result_def
        Let_def split: sum.splits prod.splits if_splits)

text \<open>
  Claim C1 says that a failed result carries no latency. The generic stream check breaks
  it: on a reply that is not \<open>ok\<close> (here HTTP 500, 120 ms after the start) its result is
  \<open>failed\<close> and carries the latency of 120 ms.
\<close>

theorem runStreamCheck_http_error_latency:
  "status (runStreamCheck (\<lambda>b. b) (config_of ''A'' ''A'' False None) stream_params
       (stream_world (Settles 120 (Inr (reply_error 500 130))))) = Failed
   \<and> latencyMs (runStreamCheck (\<lambda>b. b) (config_of ''A'' ''A'' False None) stream_params
       (stream_world (Settles 120 (Inr (reply_error 500 130))))) = Some 120
   \<and> message (runStreamCheck (\<lambda>b. b) (config_of ''A'' ''A'' False None) stream_params
       (stream_world (Settles 120 (Inr (reply_error 500 130))))) = js ''HTTP 500''"
  by (simp add: runStreamCheck_def await_until_def stream_world_def reply_error_def
        stream_DEFAULT_TIMEOUT_MS_def failure_result_def str_or_def or_null_def
        digits_small digits_big js_def)

text \<open>The abort error of \<^verbatim>\<open>fetch\<close> is worded as a timeout by every probe.\<close>

lemma abort_error_wording:
  "abort_name_message abort_error = msg_timeout"
  "getAnthropicErrorMessage abort_error = msg_timeout"
  by (simp_all add: abort_name_message_def getAnthropicErrorMessage_def isAbortLikeError_def
        abort_error_def thrown_name_def)

text \<open>
  The abort error of the SDK, which is not named \<open>AbortError\<close>, is worded as a timeout by
  the Anthropic probe of lib/providers/anthropic.ts and by the generic stream check, and
  by its own message by the OpenAI probe and by the second Anthropic probe.
\<close>

lemma APIUserAbortError_wording:
  "getAnthropicErrorMessage APIUserAbortError = msg_timeout"
  "message (stream_catch config params w APIUserAbortError) = msg_timeout"
  "abort_name_message APIUserAbortError = js ''Request was aborted.''"
proof -
  have lit: "js ''Error'' \<noteq> js ''AbortError''" "js ''Request was aborted.'' \<noteq> []"
    by (simp_all add: js_def)
  have re: "regex_test REQUEST_ABORTED_MESSAGE (js ''Request was aborted.'')"
    by (simp add: REQUEST_ABORTED_MESSAGE_def regex_test_def lits_def canon_def js_def)
  show "getAnthropicErrorMessage APIUserAbortError = msg_timeout"
    by (simp add: getAnthropicErrorMessage_def isAbortLikeError_def APIUserAbortError_def js_def)
  show "message (stream_catch config params w APIUserAbortError) = msg_timeout"
    using re lit
    by (simp add: stream_catch_def failure_result_def thrown_message_or_def str_or_def
          or_null_def APIUserAbortError_def)
  show "abort_name_message APIUserAbortError = js ''Request was aborted.''"
    using lit
    by (simp add: abort_name_message_def thrown_name_def thrown_message_or_def str_or_def
          or_null_def APIUserAbortError_def)
qed

text \<open>
  The expiry of the deadline in each SDK probe. The OpenAI probe and the second Anthropic
  probe stop after 15 seconds, the Anthropic probe of lib/providers/anthropic.ts after 45.
  Only the latter words the abort error of the SDK as a timeout, and none of them fails
  when the stream is already open.
\<close>

lemma checkOpenAI_expired:
  assumes "sdk_stream w = Pending \<or> (\<exists>t outcome. sdk_stream w = Settles t outcome \<and> 15000 \<le> t)"
  shows "sdk_opened w = None \<or> (\<exists>openedAt. sdk_opened w = Some openedAt \<and> 15000 \<le> openedAt)
           \<Longrightarrow> status (checkOpenAI config w) = Failed
               \<and> latencyMs (checkOpenAI config w) = None
               \<and> message (checkOpenAI config w) = js ''Request was aborted.''"
    and "sdk_opened w = Some openedAt \<Longrightarrow> openedAt < 15000
           \<Longrightarrow> status (checkOpenAI config w) = Degraded
               \<and> latencyMs (checkOpenAI config w) = Some 15000
               \<and> message (checkOpenAI config w) = msg_slow 15000"
  using assms
  by (simp_all add: checkOpenAI_def openai_DEFAULT_TIMEOUT_MS_def sdk_probe_expired_unopened
        sdk_probe_expired_open failure_result_fields success_result_fields success_messages
        APIUserAbortError_wording)

lemma checkAnthropic2_expired:
  assumes "sdk_stream w = Pending \<or> (\<exists>t outcome. sdk_stream w = Settles t outcome \<and> 15000 \<le> t)"
  shows "sdk_opened w = None \<or> (\<exists>openedAt. sdk_opened w = Some openedAt \<and> 15000 \<le> openedAt)
           \<Longrightarrow> status (checkAnthropic2 config w) = Failed
               \<and> latencyMs (checkAnthropic2 config w) = None
               \<and> message (checkAnthropic2 config w) = js ''Request was aborted.''"
    and "sdk_opened w = Some openedAt \<Longrightarrow> openedAt < 15000
           \<Longrightarrow> status (checkAnthropic2 config w) = Degraded
               \<and> latencyMs (checkAnthropic2 config w) = Some 15000
               \<and> message (checkAnthropic2 config w) = msg_slow 15000"
  using assms
  by (simp_all add: checkAnthropic2_def anthropic2_DEFAULT_TIMEOUT_MS_def
        sdk_probe_expired_unopened sdk_probe_expired_open failure_result_fields
        success_result_fields success_messages APIUserAbortError_wording)

lemma checkAnthropic_expired:
  assumes "sdk_stream w = Pending \<or> (\<exists>t outcome. sdk_stream w = Settles t outcome \<and> 45000 \<le> t)"
  shows "sdk_opened w = None \<or> (\<exists>openedAt. sdk_opened w = Some openedAt \<and> 45000 \<le> openedAt)
           \<Longrightarrow> status (checkAnthropic config w) = Failed
               \<and> latencyMs (checkAnthropic config w) = None
               \<and> message (checkAnthropic config w) = msg_timeout"
    and "sdk_opened w = Some openedAt \<Longrightarrow> openedAt < 45000
           \<Longrightarrow> status (checkAnthropic config w) = Degraded
               \<and> latencyMs (checkAnthropic config w) = Some 45000
               \<and> message (checkAnthropic config w) = msg_slow 45000"
  using assms
  by (simp_all add: checkAnthropic_def anthropic_DEFAULT_TIMEOUT_MS_def
        sdk_probe_expired_unopened sdk_probe_expired_open failure_result_fields
        success_result_fields success_messages APIUserAbortError_wording)

text \<open>
  The generic stream check has the deadline of 45 seconds, and its expiry before the reply
  gives \<open>failed\<close> with the timeout message.
\<close>

lemma runStreamCheck_expired:
  assumes "fetched w = Pending \<or> (\<exists>t outcome. fetched w = Settles t outcome \<and> 45000 \<le> t)"
    and "thrown_name (fetch_abort_error w) = Some (js ''AbortError'')"
  shows "status (runStreamCheck extractMessage config params w) = Failed"
    and "message (runStreamCheck extractMessage config params w) = msg_timeout"
  using assms
  by (auto simp add: runStreamCheck_def await_until_def stream_catch_def failure_result_def
        stream_DEFAULT_TIMEOUT_MS_def)

text \<open>
  Claim C2 says that every probe has a deadline of 45 seconds and that its expiry gives
  \<open>failed\<close> with the message of a timeout. The deadline of the OpenAI probe is 15 seconds.
  Against a vendor whose response arrives after 20 seconds and whose stream ends 100 ms
  later, the probe is aborted at 15 seconds and fails, with the message of the abort error
  of the SDK, \<open>Request was aborted.\<close>, which is not the message of a timeout. Against a vendor
  whose stream opens after 300 ms and would end after 20 seconds, the probe is cut at 15
  seconds too, and reports a slow success of 15000 ms. The Anthropic probe of
  lib/providers/anthropic.ts, with its 45 seconds, reports both vendors as slow successes
  of 20100 and 20000 ms.
\<close>

theorem checkOpenAI_deadline:
  "openai_DEFAULT_TIMEOUT_MS = 15000
   \<and> status (checkOpenAI (config_of ''A'' ''A'' False None)
        (sdk_world_opening (Some 20000) (Settles 20100 (Inr ())))) = Failed
   \<and> latencyMs (checkOpenAI (config_of ''A'' ''A'' False None)
        (sdk_world_opening (Some 20000) (Settles 20100 (Inr ())))) = None
   \<and> message (checkOpenAI (config_of ''A'' ''A'' False None)
        (sdk_world_opening (Some 20000) (Settles 20100 (Inr ())))) = js ''Request was aborted.''
   \<and> message (checkOpenAI (config_of ''A'' ''A'' False None)
        (sdk_world_opening (Some 20000) (Settles 20100 (Inr ())))) \<noteq> msg_timeout
   \<and> status (checkOpenAI (config_of ''A'' ''A'' False None)
        (sdk_world (Settles 20000 (Inr ())))) = Degraded
   \<and> latencyMs (checkOpenAI (config_of ''A'' ''A'' False None)
        (sdk_world (Settles 20000 (Inr ())))) = Some 15000
   \<and> message (checkOpenAI (config_of ''A'' ''A'' False None)
        (sdk_world (Settles 20000 (Inr ())))) = msg_slow 15000
   \<and> anthropic_DEFAULT_TIMEOUT_MS = 45000
   \<and> status (checkAnthropic (config_of ''A'' ''A'' False None)
        (sdk_world_opening (Some 20000) (Settles 20100 (Inr ())))) = Degraded
   \<and> latencyMs (checkAnthropic (config_of ''A'' ''A'' False None)
        (sdk_world_opening (Some 20000) (Settles 20100 (Inr ())))) = Some 20100
   \<and> status (checkAnthropic (config_of ''A'' ''A'' False None)
        (sdk_world (Settles 20000 (Inr ())))) = Degraded
   \<and> latencyMs (checkAnthropic (config_of ''A'' ''A'' False None)
        (sdk_world (Settles 20000 (Inr ())))) = Some 20000"
proof -
  have differ: "js ''Request was aborted.'' \<noteq> msg_timeout"
    by (simp add: js_def msg_timeout_def)
  have settled:
    "sdk_settled 15000 (sdk_world_opening (Some 20000) (Settles 20100 (Inr ())))
       = Inl APIUserAbortError"
    "sdk_settled 15000 (sdk_world (Settles 20000 (Inr ()))) = Inr 15000"
    "sdk_settled 45000 (sdk_world_opening (Some 20000) (Settles 20100 (Inr ()))) = Inr 20100"
    "sdk_settled 45000 (sdk_world (Settles 20000 (Inr ()))) = Inr 20000"
    by (simp_all add: sdk_settled_def sdk_aborted_def sdk_world_def sdk_world_opening_def)
  show ?thesis
    using differ
    by (simp add: checkOpenAI_def checkAnthropic_def sdk_probe_def settled
          openai_DEFAULT_TIMEOUT_MS_def anthropic_DEFAULT_TIMEOUT_MS_def
          failure_result_fields success_result_fields success_messages
          APIUserAbortError_wording)
qed

text \<open>
  Claim C3 as stated fails on the layout of the message: a success after 800 ms reads
  \<open>(800ms)\<close>, with no space between the number and \<open>ms\<close>.
\<close>

theorem probe_message_without_space:
  "status (checkOpenAI (config_of ''A'' ''A'' False None) (sdk_world (Settles 800 (Inr ()))))
     = Operational
   \<and> message (checkOpenAI (config_of ''A'' ''A'' False None)
        (sdk_world (Settles 800 (Inr ()))))
       = [27969, 24335, 21709, 24212, 27491, 24120, 32, 40] @ js ''800ms)''
   \<and> message (checkOpenAI (config_of ''A'' ''A'' False None)
        (sdk_world (Settles 800 (Inr ()))))
       \<noteq> [27969, 24335, 21709, 24212, 27491, 24120, 32, 40] @ js ''800 ms)''"
  by (simp add: checkOpenAI_def sdk_probe_def sdk_settled_def sdk_world_def
        sdk_world_opening_def openai_DEFAULT_TIMEOUT_MS_def success_result_def
        DEGRADED_THRESHOLD_MS_def msg_stream_ok_def show_int_examples) (simp add: js_def)

subsection \<open>The refresh path\<close>

text \<open>
  Claim C4, as the code has it. In the refresh path, for a scope with an active
  configuration, the freshness window is tested first: when a history is cached and
  \<open>now - lastPingAt < pollIntervalMs\<close>, the cached history is returned, no probe is invoked
  and the cache entry is left as it is, whether or not a refresh is in flight. Only
  otherwise, when \<open>inflight\<close> is set, the call returns that promise. Only when neither
  holds does it install a new inflight refresh.
\<close>

theorem refreshHistory_order:
  assumes "activeConfigs scope \<noteq> []"
  shows "(fresh_history scope now entry \<and> history entry = Some h \<longrightarrow>
            refreshHistory scope now promise entry = (StepReturn h, entry))
   \<and> (\<not> fresh_history scope now entry \<and> inflight entry = Some p \<longrightarrow>
            refreshHistory scope now promise entry = (StepAwait p, entry))
   \<and> (\<not> fresh_history scope now entry \<and> inflight entry = None \<longrightarrow>
            refreshHistory scope now promise entry
              = (StepInstall promise, entry\<lparr> inflight := Some promise \<rparr>))"
  using assms
  by (auto simp: refreshHistory_def fresh_history_def)

lemma scope_of_simps [simp]:
  "activeConfigs (scope_of cfgs) = cfgs" "pollIntervalMs (scope_of cfgs) = 60000"
  by (simp_all add: scope_of_def)

lemma entry_of_simps [simp]:
  "lastPingAt (entry_of t p h) = t" "inflight (entry_of t p h) = p" "history (entry_of t p h) = h"
  by (simp_all add: entry_of_def)

theorem refreshHistory_order_witness:
  "activeConfigs (scope_of [config_of ''a'' ''A'' False None]) \<noteq> []
   \<and> refreshHistory (scope_of [config_of ''a'' ''A'' False None]) 1500 (9::nat)
        (entry_of 1000 None (Some [(js ''a'', [stored_result ''a'' 1000])]))
       = (StepReturn [(js ''a'', [stored_result ''a'' 1000])],
          entry_of 1000 None (Some [(js ''a'', [stored_result ''a'' 1000])]))
   \<and> refreshHistory (scope_of [config_of ''a'' ''A'' False None]) 90000 (9::nat)
        (entry_of 1000 (Some 7) (Some [(js ''a'', [stored_result ''a'' 1000])]))
       = (StepAwait 7, entry_of 1000 (Some 7) (Some [(js ''a'', [stored_result ''a'' 1000])]))
   \<and> refreshHistory (scope_of [config_of ''a'' ''A'' False None]) 90000 (9::nat)
        (entry_of 1000 None (Some [(js ''a'', [stored_result ''a'' 1000])]))
       = (StepInstall 9, entry_of 1000 (Some 9) (Some [(js ''a'', [stored_result ''a'' 1000])]))"
  using refreshHistory_order
      [of "scope_of [config_of ''a'' ''A'' False None]" 1500
          "entry_of 1000 None (Some [(js ''a'', [stored_result ''a'' 1000])])"
          "[(js ''a'', [stored_result ''a'' 1000])]" 9 7]
    refreshHistory_order
      [of "scope_of [config_of ''a'' ''A'' False None]" 90000
          "entry_of 1000 (Some 7) (Some [(js ''a'', [stored_result ''a'' 1000])])"
          "[]" 9 7]
    refreshHistory_order
      [of "scope_of [config_of ''a'' ''A'' False None]" 90000
          "entry_of 1000 None (Some [(js ''a'', [stored_result ''a'' 1000])])"
          "[]" 9 7]
  by (simp add: fresh_history_def)

text \<open>
  Claim C4 as stated fails on a cache entry with a refresh in flight and a fresh cached
  history: the call returns the cached history; it does not await the promise in flight.
\<close>

theorem refreshHistory_fresh_before_inflight:
  "inflight (entry_of 1000 (Some 7) (Some [(js ''a'', [stored_result ''a'' 1000])])) = Some (7::nat)
   \<and> refreshHistory (scope_of [config_of ''a'' ''A'' False None]) 1500 (9::nat)
        (entry_of 1000 (Some 7) (Some [(js ''a'', [stored_result ''a'' 1000])]))
       = (StepReturn [(js ''a'', [stored_result ''a'' 1000])],
          entry_of 1000 (Some 7) (Some [(js ''a'', [stored_result ''a'' 1000])]))"
  by (simp add: refreshHistory_def fresh_history_def)

text \<open>
  With the mode \<open>always\<close> and a scope that has ids, \<open>loadSnapshotForScope\<close> is its refresh
  path.
\<close>

lemma loadSnapshotForScope_always:
  "allowedIds scope \<noteq> [] \<Longrightarrow>
     loadSnapshotForScope scope Always stored now promise entry
       = refreshHistory scope now promise entry"
  by (simp add: loadSnapshotForScope_def)

text \<open>
  One refresh from start to end: a stale entry without a refresh in flight gets the promise
  installed; while it is in flight and the entry stale, a second caller is handed the same
  promise; once the refresh has stored its history and the \<^verbatim>\<open>finally\<close> block has run, no
  promise is left and callers inside the window are served from the cache.
\<close>

lemma refreshHistory_installs:
  assumes "activeConfigs scope \<noteq> []" and "\<not> fresh_history scope now entry"
    and "inflight entry = None"
  shows "refreshHistory scope now promise entry
           = (StepInstall promise, entry\<lparr> inflight := Some promise \<rparr>)"
  using assms by (simp add: refreshHistory_def)

lemma refresh_coalesces:
  assumes "activeConfigs scope \<noteq> []" and "\<not> fresh_history scope now entry"
    and "inflight entry = None" and "\<not> fresh_history scope later entry"
  shows "refreshHistory scope later other (snd (refreshHistory scope now promise entry))
           = (StepAwait promise, snd (refreshHistory scope now promise entry))"
proof -
  have "\<not> fresh_history scope later (entry\<lparr> inflight := Some promise \<rparr>)"
    using assms(4) by (simp add: fresh_history_def)
  then show ?thesis
    unfolding refreshHistory_installs [OF assms(1-3)] snd_conv
    using assms(1) by (simp add: refreshHistory_def)
qed

lemma refresh_completes:
  assumes "activeConfigs scope \<noteq> []" and "\<not> fresh_history scope now entry"
    and "inflight entry = None" and "later - doneAt < pollIntervalMs scope"
  shows "refreshHistory scope later other
           (refresh_finally promise
              (inflight_settled nextHistory doneAt
                 (snd (refreshHistory scope now promise entry))))
         = (StepReturn nextHistory,
            entry\<lparr> history := Some nextHistory, lastPingAt := doneAt \<rparr>)"
proof -
  have settled: "refresh_finally promise
      (inflight_settled nextHistory doneAt (entry\<lparr> inflight := Some promise \<rparr>))
        = entry\<lparr> history := Some nextHistory, lastPingAt := doneAt \<rparr>"
    using assms(3) by (simp add: refresh_finally_def inflight_settled_def)
  have "fresh_history scope later (entry\<lparr> history := Some nextHistory, lastPingAt := doneAt \<rparr>)"
    using assms(4) by (simp add: fresh_history_def)
  then show ?thesis
    unfolding refreshHistory_installs [OF assms(1-3)] snd_conv settled
    using assms(1) by (simp add: refreshHistory_def)
qed

subsection \<open>Timelines\<close>

lemma attachOfficialStatus_fields [simp]:
  "status (attachOfficialStatus cache r) = status r"
  "latencyMs (attachOfficialStatus cache r) = latencyMs r"
  "pingLatencyMs (attachOfficialStatus cache r) = pingLatencyMs r"
  "message (attachOfficialStatus cache r) = message r"
  "checkedAt (attachOfficialStatus cache r) = checkedAt r"
  "res_id (attachOfficialStatus cache r) = res_id r"
  "res_name (attachOfficialStatus cache r) = res_name r"
  by (simp_all add: attachOfficialStatus_def split: option.splits)




subsection \<open>History snapshots\<close>

lemma insert_newest_first:
  "insert_cmp newest_first x ys = insort_key (\<lambda>r. - checkedAt r) x ys"
  by (induction ys) (auto simp: newest_first_def)

lemma sort_newest_first: "sort_cmp newest_first xs = sort_key (\<lambda>r. - checkedAt r) xs"
  by (induction xs) (auto simp: sort_cmp_def insert_newest_first)

lemma descending_sorted_wrt:
  "descending xs = sorted_wrt (\<lambda>a b. checkedAt a \<ge> checkedAt b) xs"
  by (induction xs rule: descending.induct) (auto intro: order_trans)

lemma descending_sort: "descending (sort_cmp newest_first xs)"
proof -
  have "sorted (map (\<lambda>r. - checkedAt r) (sort_key (\<lambda>r. - checkedAt r) xs))"
    by (rule sorted_sort_key)
  then show ?thesis
    by (simp add: descending_sorted_wrt sort_newest_first sorted_map)
qed

lemma descending_take: "descending xs \<Longrightarrow> descending (take n xs)"
  by (simp add: descending_sorted_wrt sorted_wrt_take)

lemma keys_push_result: "fst ` set (push_result h r) = insert (res_id r) (fst ` set h)"
  by (induction h r rule: push_result.induct) auto

lemma keyed_push_result: "keyed h \<Longrightarrow> keyed (push_result h r)"
proof (induction h r rule: push_result.induct)
  case (1 r)
  then show ?case by (simp add: keyed_def)
next
  case (2 k items rest r)
  have rest: "keyed rest" using 2(2) by (auto simp: keyed_def)
  show ?case
  proof (cases "k = res_id r")
    case True
    then show ?thesis using 2(2) by (auto simp: keyed_def)
  next
    case False
    then have "keyed (push_result rest r)" using 2(1) rest by simp
    moreover have "k \<notin> fst ` set (push_result rest r)"
      using 2(2) False by (auto simp: keys_push_result keyed_def)
    ultimately show ?thesis using 2(2) False by (auto simp: keyed_def)
  qed
qed

lemma keys_foldl_push: "fst ` set (foldl push_result h rs) = fst ` set h \<union> res_id ` set rs"
  by (induction rs arbitrary: h) (auto simp: keys_push_result)

lemma keyed_foldl_push: "keyed h \<Longrightarrow> keyed (foldl push_result h rs)"
  by (induction rs arbitrary: h) (auto simp: keyed_push_result)

lemma keys_sort_and_slice [simp]: "map fst (sort_and_slice h) = map fst h"
  by (induction h) (auto simp: sort_and_slice_def)

lemma sort_and_slice_items:
  assumes "(k, items) \<in> set (sort_and_slice h)"
  shows "\<exists>raw. (k, raw) \<in> set h \<and> items = take MAX_POINTS_PER_PROVIDER (sort_cmp newest_first raw)"
  using assms by (auto simp: sort_and_slice_def)

text \<open>
  Claim C6, as the code has it. The snapshot built from the rows of a history fetch has
  exactly the ids of the rows as its keys, each once; the list of an id is not empty, holds
  at most 60 results, all of that id, and is sorted by \<open>checkedAt\<close>, newest first: the
  order is descending, not necessarily strictly so.
\<close>

theorem mapRowsToSnapshot_rings:
  "fst ` set (mapRowsToSnapshot rows) = row_config_id ` set (rows_of rows)
   \<and> distinct (map fst (mapRowsToSnapshot rows))
   \<and> (\<forall>(k, items)\<in>set (mapRowsToSnapshot rows).
         items \<noteq> [] \<and> length items \<le> 60 \<and> descending items
         \<and> (\<forall>r\<in>set items. res_id r = k))"
proof (cases "rows_of rows = []")
  case True
  then show ?thesis
    by (auto simp: mapRowsToSnapshot_def rows_of_def split: option.splits)
next
  case False
  then obtain rs where rows: "rows = Some rs" "rs \<noteq> []"
    by (auto simp: rows_of_def split: option.splits)
  define raw where "raw = foldl push_result [] (map row_to_result rs)"
  have snap: "mapRowsToSnapshot rows = sort_and_slice raw"
    using rows by (simp add: mapRowsToSnapshot_def raw_def)
  have keyed: "keyed raw"
    unfolding raw_def by (rule keyed_foldl_push) (simp add: keyed_def)
  have keys: "fst ` set raw = row_config_id ` set rs"
    unfolding raw_def by (auto simp: keys_foldl_push row_to_result_def image_iff)
  have "fst ` set (sort_and_slice raw) = fst ` set raw"
    using keys_sort_and_slice [of raw] by (metis set_map)
  then have k1: "fst ` set (mapRowsToSnapshot rows) = row_config_id ` set (rows_of rows)"
    unfolding snap using keys rows by (simp add: rows_of_def)
  have k2: "distinct (map fst (mapRowsToSnapshot rows))"
    unfolding snap using keyed by (simp add: keyed_def)
  have k3: "items \<noteq> [] \<and> length items \<le> 60 \<and> descending items \<and> (\<forall>r\<in>set items. res_id r = k)"
    if "(k, items) \<in> set (mapRowsToSnapshot rows)" for k items
  proof -
    have "(k, items) \<in> set (sort_and_slice raw)"
      using that by (simp add: snap)
    then obtain r0 where r0: "(k, r0) \<in> set raw"
      "items = take MAX_POINTS_PER_PROVIDER (sort_cmp newest_first r0)"
      using sort_and_slice_items by blast
    have ne: "r0 \<noteq> []" and ids: "\<forall>r\<in>set r0. res_id r = k"
      using keyed r0(1) by (auto simp: keyed_def)
    have "sort_cmp newest_first r0 \<noteq> []"
      using ne by (metis length_sort_cmp length_0_conv)
    then have "items \<noteq> []"
      by (simp add: r0(2) MAX_POINTS_PER_PROVIDER_def)
    moreover have "length items \<le> 60"
      by (simp add: r0(2) MAX_POINTS_PER_PROVIDER_def)
    moreover have "descending items"
      unfolding r0(2) by (intro descending_take descending_sort)
    moreover have "\<forall>r\<in>set items. res_id r = k"
      using ids unfolding r0(2) by (auto dest: in_set_takeD)
    ultimately show ?thesis by blast
  qed
  show ?thesis using k1 k2 k3 by blast
qed

lemma js_a_b: "js ''a'' \<noteq> js ''b''" "js ''b'' \<noteq> js ''a''"
  by (simp_all add: js_def)

lemma snapshot_example:
  "mapRowsToSnapshot (Some [row_at ''a'' 1000 800, row_at ''b'' 2000 900, row_at ''a'' 3000 700])
     = [(js ''a'', [row_to_result (row_at ''a'' 3000 700), row_to_result (row_at ''a'' 1000 800)]),
        (js ''b'', [row_to_result (row_at ''b'' 2000 900)])]"
  using js_a_b
  by (simp add: mapRowsToSnapshot_def sort_and_slice_def sort_cmp_def newest_first_def
        row_to_result_def row_at_def MAX_POINTS_PER_PROVIDER_def)

theorem mapRowsToSnapshot_rings_witness:
  "(js ''a'', [row_to_result (row_at ''a'' 3000 700), row_to_result (row_at ''a'' 1000 800)])
      \<in> set (mapRowsToSnapshot
          (Some [row_at ''a'' 1000 800, row_at ''b'' 2000 900, row_at ''a'' 3000 700]))
   \<and> length [row_to_result (row_at ''a'' 3000 700), row_to_result (row_at ''a'' 1000 800)] \<le> 60
   \<and> descending [row_to_result (row_at ''a'' 3000 700), row_to_result (row_at ''a'' 1000 800)]
   \<and> res_id (row_to_result (row_at ''a'' 1000 800)) = js ''a''"
  using mapRowsToSnapshot_rings
    [of "Some [row_at ''a'' 1000 800, row_at ''b'' 2000 900, row_at ''a'' 3000 700]"]
  by (simp add: snapshot_example)

text \<open>
  Claim C6 as stated fails on two rows of one id with the same instant: both are in the
  ring, which is then not strictly descending.
\<close>

theorem mapRowsToSnapshot_keeps_ties:
  "mapRowsToSnapshot (Some [row_at ''a'' 1000 800, row_at ''a'' 1000 900])
     = [(js ''a'', [row_to_result (row_at ''a'' 1000 800), row_to_result (row_at ''a'' 1000 900)])]
   \<and> \<not> strictly_descending
         [row_to_result (row_at ''a'' 1000 800), row_to_result (row_at ''a'' 1000 900)]"
  by (simp add: mapRowsToSnapshot_def sort_and_slice_def sort_cmp_def newest_first_def
        row_to_result_def row_at_def MAX_POINTS_PER_PROVIDER_def)

subsection \<open>Model preferences\<close>

lemma atom_match_lower_letter:
  assumes "lower_letter p"
  shows "atom_match (Lit p) c \<longleftrightarrow> (if 65 \<le> c \<and> c \<le> 90 then c + 32 else c) = p"
  using assms by (auto simp: canon_def lower_letter_def)

lemma ascii_lower_simps:
  "ascii_lower [] = []"
  "ascii_lower (c # cs) = (if 65 \<le> c \<and> c \<le> 90 then c + 32 else c) # ascii_lower cs"
  by (simp_all add: ascii_lower_def)

lemma match_exact_lower:
  assumes "list_all lower_letter alt"
  shows "match_exact (map Lit alt) w \<longleftrightarrow> ascii_lower w = alt"
  using assms
proof (induction alt arbitrary: w)
  case Nil
  then show ?case by (cases w) (simp_all add: ascii_lower_simps)
next
  case (Cons p alt)
  then have p: "lower_letter p" and ih: "\<And>w. match_exact (map Lit alt) w \<longleftrightarrow> ascii_lower w = alt"
    by simp_all
  show ?case
  proof (cases w)
    case Nil
    then show ?thesis by (simp add: ascii_lower_simps)
  next
    case (Cons c cs)
    then show ?thesis
      by (simp only: list.map match_exact.simps atom_match_lower_letter [OF p] ih
            ascii_lower_simps list.inject)
  qed
qed

lemma lits_js: "lits s = map Lit (js s)"
  by (simp add: lits_def js_def)

lemma effort_words_lower: "list_all (\<lambda>alt. list_all lower_letter (js alt)) effort_alternatives"
  by (simp add: effort_alternatives_def js_def lower_letter_def)

lemma tail_words:
  "list_ex (\<lambda>alt. match_exact (lits alt) w) effort_alternatives
     \<longleftrightarrow> ascii_lower w \<in> set (map js effort_alternatives)"
proof -
  have "match_exact (lits alt) w \<longleftrightarrow> ascii_lower w = js alt"
    if "alt \<in> set effort_alternatives" for alt
    using that effort_words_lower by (simp add: lits_js match_exact_lower list_all_iff)
  then show ?thesis
    by (auto simp: list_ex_iff)
qed

lemma separator_match:
  "atom_match (Lit 64) sep \<or> atom_match (Lit 35) sep \<longleftrightarrow> sep = 64 \<or> sep = 35"
  by (auto simp: canon_def)

lemma directive_tail_eq:
  "directive_tail rest = Some word
     \<longleftrightarrow> (\<exists>sep. rest = sep # word \<and> (sep = 64 \<or> sep = 35)
            \<and> ascii_lower word \<in> set (map js effort_alternatives))"
  unfolding directive_tail_def tail_words separator_match
  by (cases rest) auto

lemma effort_word_no_separator:
  assumes "ascii_lower word \<in> set (map js effort_alternatives)"
  shows "64 \<notin> set word" and "35 \<notin> set word"
proof -
  have low: "list_all lower_letter (ascii_lower word)"
    using assms effort_words_lower by (auto simp: list_all_iff)
  have "lower_letter (if 65 \<le> c \<and> c \<le> 90 then c + 32 else c)" if "c \<in> set word" for c
    using low that by (auto simp: ascii_lower_def list_all_iff)
  then have "c \<noteq> 64 \<and> c \<noteq> 35" if "c \<in> set word" for c
    using that by (fastforce simp: lower_letter_def)
  then show "64 \<notin> set word" and "35 \<notin> set word" by blast+
qed

lemma directive_tail_None_before:
  assumes "sep = 64 \<or> sep = 35"
  shows "directive_tail (c # mid @ sep # word) = None"
proof (cases "directive_tail (c # mid @ sep # word)")
  case None
  then show ?thesis .
next
  case (Some w')
  then have "ascii_lower (mid @ sep # word) \<in> set (map js effort_alternatives)"
    by (auto simp: directive_tail_eq)
  then have "64 \<notin> set (mid @ sep # word)" "35 \<notin> set (mid @ sep # word)"
    by (rule effort_word_no_separator)+
  with assms show ?thesis by auto
qed

text \<open>
  The search for the directive finds exactly the strings that end in a separator and an
  effort word, with no line terminator before the separator.
\<close>

lemma directive_from_sound:
  assumes "list_all (\<lambda>c. \<not> is_line_terminator c) mid" and "sep = 64 \<or> sep = 35"
    and "ascii_lower word \<in> set (map js effort_alternatives)"
  shows "directive_from acc (mid @ sep # word) = Some (acc @ mid, word)"
  using assms(1)
proof (induction mid arbitrary: acc)
  case Nil
  have "directive_tail (sep # word) = Some word"
    using assms(2,3) by (simp add: directive_tail_eq)
  then show ?case by simp
next
  case (Cons c mid)
  have "directive_tail (c # mid @ sep # word) = None"
    using assms(2) by (rule directive_tail_None_before)
  then show ?case using Cons by simp
qed

lemma directive_from_complete:
  assumes "directive_from acc s = Some (b, word)"
  shows "\<exists>mid sep. b = acc @ mid \<and> s = mid @ sep # word \<and> (sep = 64 \<or> sep = 35)
           \<and> ascii_lower word \<in> set (map js effort_alternatives)
           \<and> list_all (\<lambda>c. \<not> is_line_terminator c) mid"
  using assms
proof (induction acc s rule: directive_from.induct)
  case (1 base)
  then show ?case by simp
next
  case (2 base c cs)
  show ?case
  proof (cases "directive_tail (c # cs)")
    case (Some w')
    with 2(2) have "b = base" "w' = word" by simp_all
    with Some show ?thesis
      by (auto simp: directive_tail_eq intro!: exI [where x = "[]"])
  next
    case None
    with 2(2) have nl: "\<not> is_line_terminator c"
      and rec: "directive_from (base @ [c]) cs = Some (b, word)"
      by (simp_all split: if_splits)
    from 2(1) [OF None nl rec] obtain mid sep where
      "b = (base @ [c]) @ mid" "cs = mid @ sep # word" "sep = 64 \<or> sep = 35"
      "ascii_lower word \<in> set (map js effort_alternatives)"
      "list_all (\<lambda>c. \<not> is_line_terminator c) mid"
      by blast
    with nl show ?thesis
      by (intro exI [where x = "c # mid"] exI [where x = sep]) simp
  qed
qed

lemma directive_from_iff:
  "directive_from [] s = Some (base, word) \<longleftrightarrow> (\<exists>sep. is_directive s base sep word)"
proof
  assume "directive_from [] s = Some (base, word)"
  from directive_from_complete [OF this] show "\<exists>sep. is_directive s base sep word"
    by (auto simp: is_directive_def)
next
  assume "\<exists>sep. is_directive s base sep word"
  then obtain sep where "is_directive s base sep word" ..
  then show "directive_from [] s = Some (base, word)"
    using directive_from_sound [of base sep word "[]"] by (simp add: is_directive_def)
qed

lemma directive_from_None:
  "directive_from [] s = None \<longleftrightarrow> (\<forall>base sep word. \<not> is_directive s base sep word)"
proof
  assume none: "directive_from [] s = None"
  show "\<forall>base sep word. \<not> is_directive s base sep word"
  proof (intro allI notI)
    fix base sep word
    assume "is_directive s base sep word"
    then have "directive_from [] s = Some (base, word)"
      using directive_from_iff by blast
    with none show False by simp
  qed
next
  assume no: "\<forall>base sep word. \<not> is_directive s base sep word"
  show "directive_from [] s = None"
  proof (cases "directive_from [] s")
    case None
    then show ?thesis .
  next
    case (Some bw)
    then obtain b w where "directive_from [] s = Some (b, w)"
      by (cases bw) simp
    then have "\<exists>sep. is_directive s b sep w"
      using directive_from_iff by blast
    with no show ?thesis by blast
  qed
qed

lemma effort_alias_defined:
  assumes "ascii_lower word \<in> set (map js effort_alternatives)"
  shows "map_of EFFORT_ALIAS_MAP (ascii_lower word) \<noteq> None"
proof -
  have "map fst EFFORT_ALIAS_MAP = map js effort_alternatives"
    by (simp add: EFFORT_ALIAS_MAP_def effort_alternatives_def)
  then have "ascii_lower word \<in> fst ` set EFFORT_ALIAS_MAP"
    using assms by (metis set_map)
  then show ?thesis by (simp add: map_of_eq_None_iff)
qed

lemma resolve_blank:
  "js_trim model = [] \<Longrightarrow>
     resolveModelPreferences model = \<lparr> requestModel = model, reasoningEffort = None \<rparr>"
  by (simp add: resolveModelPreferences_def)

lemma is_directive_nonempty: "is_directive s base sep word \<Longrightarrow> s \<noteq> []"
  by (auto simp: is_directive_def)

lemma resolve_directive:
  assumes "is_directive (js_trim model) base sep word"
  shows "resolveModelPreferences model
           = \<lparr> requestModel = (if js_trim base = [] then js_trim model else js_trim base),
               reasoningEffort = map_of EFFORT_ALIAS_MAP (ascii_lower word) \<rparr>"
proof -
  have "directive_from [] (js_trim model) = Some (base, word)"
    using assms directive_from_iff by blast
  then show ?thesis
    using is_directive_nonempty [OF assms] by (simp add: resolveModelPreferences_def)
qed

lemma resolve_no_directive:
  assumes "js_trim model \<noteq> []"
    and "\<forall>base sep word. \<not> is_directive (js_trim model) base sep word"
  shows "resolveModelPreferences model
           = (if \<exists>regex\<in>set REASONING_MODEL_HINTS. regex_test regex (js_trim model)
              then \<lparr> requestModel = js_trim model, reasoningEffort = Some EffortMedium \<rparr>
              else \<lparr> requestModel = js_trim model, reasoningEffort = None \<rparr>)"
proof -
  have "directive_from [] (js_trim model) = None"
    using assms(2) directive_from_None by blast
  then show ?thesis
    using assms(1) by (simp add: resolveModelPreferences_def list_ex_iff)
qed

text \<open>
  Claim C7, as the code has it. The model is trimmed first; a blank model is sent as it is,
  without effort. If the trimmed model is a first part free of line terminators, then
  \<open>@\<close> or \<open>#\<close>, then one of mini, minimal, low, medium, high in any case, the effort is
  the normalized one (mini gives minimal) and the transmitted model is the first part,
  trimmed, or the whole trimmed model, directive included, when the first part is blank.
  If there is no such directive and the trimmed model matches one of the five hints, the
  effort is medium and the trimmed model is transmitted. Otherwise the effort is omitted
  and the trimmed model is transmitted.
\<close>

theorem resolveModelPreferences_rules:
  "(js_trim model = [] \<longrightarrow>
      resolveModelPreferences model = \<lparr> requestModel = model, reasoningEffort = None \<rparr>)
   \<and> (is_directive (js_trim model) base sep word \<longrightarrow>
      requestModel (resolveModelPreferences model)
        = (if js_trim base = [] then js_trim model else js_trim base)
      \<and> reasoningEffort (resolveModelPreferences model)
        = map_of EFFORT_ALIAS_MAP (ascii_lower word)
      \<and> reasoningEffort (resolveModelPreferences model) \<noteq> None)
   \<and> (js_trim model \<noteq> []
        \<and> (\<forall>b s w. \<not> is_directive (js_trim model) b s w)
        \<and> (\<exists>regex\<in>set REASONING_MODEL_HINTS. regex_test regex (js_trim model)) \<longrightarrow>
      resolveModelPreferences model
        = \<lparr> requestModel = js_trim model, reasoningEffort = Some EffortMedium \<rparr>)
   \<and> (js_trim model \<noteq> []
        \<and> (\<forall>b s w. \<not> is_directive (js_trim model) b s w)
        \<and> \<not> (\<exists>regex\<in>set REASONING_MODEL_HINTS. regex_test regex (js_trim model)) \<longrightarrow>
      resolveModelPreferences model
        = \<lparr> requestModel = js_trim model, reasoningEffort = None \<rparr>)"
proof (intro conjI impI)
  assume "js_trim model = []"
  then show "resolveModelPreferences model = \<lparr> requestModel = model, reasoningEffort = None \<rparr>"
    by (rule resolve_blank)
next
  assume d: "is_directive (js_trim model) base sep word"
  show "requestModel (resolveModelPreferences model)
        = (if js_trim base = [] then js_trim model else js_trim base)"
    and "reasoningEffort (resolveModelPreferences model)
        = map_of EFFORT_ALIAS_MAP (ascii_lower word)"
    by (simp_all add: resolve_directive [OF d])
  have "ascii_lower word \<in> set (map js effort_alternatives)"
    using d by (simp add: is_directive_def)
  then show "reasoningEffort (resolveModelPreferences model) \<noteq> None"
    using effort_alias_defined by (simp add: resolve_directive [OF d])
next
  assume "js_trim model \<noteq> []
        \<and> (\<forall>b s w. \<not> is_directive (js_trim model) b s w)
        \<and> (\<exists>regex\<in>set REASONING_MODEL_HINTS. regex_test regex (js_trim model))"
  then show "resolveModelPreferences model
        = \<lparr> requestModel = js_trim model, reasoningEffort = Some EffortMedium \<rparr>"
    by (simp add: resolve_no_directive)
next
  assume "js_trim model \<noteq> []
        \<and> (\<forall>b s w. \<not> is_directive (js_trim model) b s w)
        \<and> \<not> (\<exists>regex\<in>set REASONING_MODEL_HINTS. regex_test regex (js_trim model))"
  then show "resolveModelPreferences model
        = \<lparr> requestModel = js_trim model, reasoningEffort = None \<rparr>"
    by (simp add: resolve_no_directive)
qed

lemmas trim_eval = js_trim_def is_trim_space_def js_def

lemma trim_examples:
  "js_trim (js ''gpt-5.1-codex@high'') = js ''gpt-5.1-codex@high''"
  "js_trim (js ''gpt-5.1-codex'') = js ''gpt-5.1-codex''"
  "js_trim (js ''o3-mini'') = js ''o3-mini''"
  "js_trim (js '' o3-mini'') = js ''o3-mini''"
  "js_trim (js ''gpt-4o-mini'') = js ''gpt-4o-mini''"
  "js_trim (js ''@high'') = js ''@high''"
  "js_trim (js ''  '') = []"
  "js_trim [] = []"
  by (simp_all add: trim_eval)

lemmas directive_eval = directive_tail_def effort_alternatives_def lits_def canon_def
  is_line_terminator_def js_def

lemma directive_examples:
  "is_directive (js ''gpt-5.1-codex@high'') (js ''gpt-5.1-codex'') 64 (js ''high'')"
  "is_directive (js ''@high'') [] 64 (js ''high'')"
  by (simp_all add: is_directive_def effort_alternatives_def ascii_lower_def
        is_line_terminator_def js_def)

lemma no_directive_examples:
  "\<forall>b s w. \<not> is_directive (js ''o3-mini'') b s w"
  "\<forall>b s w. \<not> is_directive (js ''gpt-4o-mini'') b s w"
proof -
  have "directive_from [] (js ''o3-mini'') = None"
    by (simp add: directive_eval)
  then show "\<forall>b s w. \<not> is_directive (js ''o3-mini'') b s w"
    using directive_from_None by blast
  have "directive_from [] (js ''gpt-4o-mini'') = None"
    by (simp add: directive_eval)
  then show "\<forall>b s w. \<not> is_directive (js ''gpt-4o-mini'') b s w"
    using directive_from_None by blast
qed

lemmas hint_eval = REASONING_MODEL_HINTS_def regex_test_def word_boundary_def
  is_word_char_def lits_def canon_def js_def

lemma hint_examples:
  "\<exists>regex\<in>set REASONING_MODEL_HINTS. regex_test regex (js ''o3-mini'')"
  "\<not> (\<exists>regex\<in>set REASONING_MODEL_HINTS. regex_test regex (js ''gpt-4o-mini''))"
  by (simp_all add: hint_eval)

lemma effort_examples:
  "map_of EFFORT_ALIAS_MAP (ascii_lower (js ''high'')) = Some EffortHigh"
  by (simp add: EFFORT_ALIAS_MAP_def ascii_lower_def js_def)

lemma model_literals:
  "js ''o3-mini'' \<noteq> []" "js ''gpt-4o-mini'' \<noteq> []" "js ''@high'' \<noteq> []"
  "js ''gpt-5.1-codex'' \<noteq> []" "js ''o3-mini'' \<noteq> js '' o3-mini''"
  by (simp_all add: js_def)

theorem resolveModelPreferences_rules_witness:
  "resolveModelPreferences (js ''  '') = \<lparr> requestModel = js ''  '', reasoningEffort = None \<rparr>
   \<and> requestModel (resolveModelPreferences (js ''gpt-5.1-codex@high'')) = js ''gpt-5.1-codex''
   \<and> reasoningEffort (resolveModelPreferences (js ''gpt-5.1-codex@high'')) = Some EffortHigh
   \<and> resolveModelPreferences (js ''o3-mini'')
       = \<lparr> requestModel = js ''o3-mini'', reasoningEffort = Some EffortMedium \<rparr>
   \<and> resolveModelPreferences (js ''gpt-4o-mini'')
       = \<lparr> requestModel = js ''gpt-4o-mini'', reasoningEffort = None \<rparr>"
  using resolveModelPreferences_rules [of "js ''  ''" "[]" 64 "[]"]
    resolveModelPreferences_rules
      [of "js ''gpt-5.1-codex@high''" "js ''gpt-5.1-codex''" 64 "js ''high''"]
    resolveModelPreferences_rules [of "js ''o3-mini''" "[]" 64 "[]"]
    resolveModelPreferences_rules [of "js ''gpt-4o-mini''" "[]" 64 "[]"]
    directive_examples no_directive_examples hint_examples model_literals
  by (simp add: trim_examples effort_examples)

lemma newline_model:
  "js_trim (js ''a'' @ 10 # js ''b@high'') = js ''a'' @ 10 # js ''b@high''"
  "js ''a'' @ 10 # js ''b@high'' \<noteq> []"
  "directive_from [] (js ''a'' @ 10 # js ''b@high'') = None"
  "\<not> list_ex (\<lambda>regex. regex_test regex (js ''a'' @ 10 # js ''b@high'')) REASONING_MODEL_HINTS"
  by (simp_all add: trim_eval directive_eval hint_eval)

lemma resolve_newline_model:
  "resolveModelPreferences (js ''a'' @ 10 # js ''b@high'')
     = \<lparr> requestModel = js ''a'' @ 10 # js ''b@high'', reasoningEffort = None \<rparr>"
  using newline_model(2,4)
  by (simp add: resolveModelPreferences_def newline_model(1,3))

text \<open>
  Claim C7 as stated fails on three models: one that is only a directive is transmitted
  whole, not stripped to the empty string; one with white space before it is transmitted
  trimmed, not unchanged; a directive after a line feed is not read as one.
\<close>

theorem resolveModelPreferences_keeps_bare_directive:
  "requestModel (resolveModelPreferences (js ''@high'')) = js ''@high''
   \<and> reasoningEffort (resolveModelPreferences (js ''@high'')) = Some EffortHigh
   \<and> js ''@high'' \<noteq> []
   \<and> requestModel (resolveModelPreferences (js '' o3-mini'')) = js ''o3-mini''
   \<and> js ''o3-mini'' \<noteq> js '' o3-mini''
   \<and> reasoningEffort (resolveModelPreferences (js ''a'' @ 10 # js ''b@high'')) = None"
  using resolve_directive [of "js ''@high''" "[]" 64 "js ''high''"]
    resolve_no_directive [of "js '' o3-mini''"]
    directive_examples no_directive_examples hint_examples model_literals
  by (simp add: trim_examples effort_examples resolve_newline_model)

text \<open>The request of the OpenAI probe carries what \<open>resolveModelPreferences\<close> returns.\<close>

lemma openai_requestPayload_fields:
  "req_model (openai_requestPayload config)
     = requestModel (resolveModelPreferences (cfg_model config))"
  "req_reasoning_effort (openai_requestPayload config)
     = reasoningEffort (resolveModelPreferences (cfg_model config))"
  by (simp_all add: openai_requestPayload_def Let_def)

subsection \<open>Group data\<close>

lemma or_null_idem [simp]: "or_null (or_null v) = or_null v"
  by (simp add: or_null_def split: option.splits)












subsection \<open>Official status of Anthropic\<close>

lemma starts_with_self [simp]: "starts_with s s"
  by (induction s) auto

lemma str_includes_self [simp]: "str_includes s s"
  by (cases s) auto

lemma operational_not_outage: "\<not> str_includes (js ''operational'') (js ''outage'')"
  by (simp add: js_def)

lemma operational_not_down: "\<not> str_includes (js ''operational'') (js ''down'')"
  by (simp add: js_def)

lemma operational_not_degraded: "\<not> str_includes (js ''operational'') (js ''degraded'')"
  by (simp add: js_def)

lemma major_outage_includes: "str_includes (js ''major_outage'') (js ''outage'')"
  by (simp add: js_def)

lemma degraded_performance_includes:
  "str_includes (js ''degraded_performance'') (js ''degraded'')"
  by (simp add: js_def)

text \<open>What the loop leaves in its three variables, for any starting values.\<close>

lemma scan_components_acc:
  "scan_components lc cs (aff, d, g) =
     (aff @ map comp_name (filter (non_operational lc) cs),
      d \<or> (\<exists>c\<in>set cs. down_component lc c),
      g \<or> (\<exists>c\<in>set cs. \<not> down_component lc c
              \<and> str_includes (lc (comp_status c)) (js ''degraded'')))"
proof (induction cs arbitrary: aff d g)
  case Nil
  then show ?case by simp
next
  case (Cons c cs)
  show ?case
    using operational_not_outage operational_not_down operational_not_degraded
      major_outage_includes degraded_performance_includes
    by (auto simp add: Cons.IH Let_def non_operational_def down_component_def)
qed

lemma parse_status_eq:
  "os_status (parseAnthropicSummary lc data t) =
     (if lc (indicator data) = js ''none''
         \<and> (\<forall>c\<in>set (comps_of data). \<not> non_operational lc c)
        then OfficialOperational
      else if lc (indicator data) = js ''critical'' \<or> lc (indicator data) = js ''major''
              \<or> (\<exists>c\<in>set (comps_of data). down_component lc c)
        then OfficialDown
      else if lc (indicator data) = js ''minor''
              \<or> (\<exists>c\<in>set (comps_of data). \<not> down_component lc c
                    \<and> str_includes (lc (comp_status c)) (js ''degraded''))
        then OfficialDegraded
      else OfficialUnknown)"
  unfolding parseAnthropicSummary_def comps_of_def[symmetric]
  by (simp add: scan_components_acc Let_def filter_empty_conv)

lemma indicator_literals_distinct:
  "js ''none'' \<noteq> js ''minor''" "js ''none'' \<noteq> js ''major''"
  "js ''none'' \<noteq> js ''critical''" "js ''minor'' \<noteq> js ''major''"
  "js ''minor'' \<noteq> js ''critical''"
  by (simp_all add: js_def)

lemma outage_nonop:
  "str_includes (lc (comp_status c)) (js ''outage'') \<Longrightarrow> non_operational lc c"
  using operational_not_outage by (auto simp: non_operational_def)

lemma degraded_nonop:
  "str_includes (lc (comp_status c)) (js ''degraded'') \<Longrightarrow> non_operational lc c"
  using operational_not_degraded by (auto simp: non_operational_def)

text \<open>
  Claim C9, as the code has it. The indicator \<open>none\<close> gives \<open>operational\<close> only when every
  component is operational as well; \<open>minor\<close> gives \<open>degraded\<close> unless a component status
  contains \<open>outage\<close> or \<open>down\<close>; \<open>major\<close> and \<open>critical\<close> give \<open>down\<close>; a component
  whose status contains \<open>outage\<close> forces \<open>down\<close>; a component whose status contains
  \<open>degraded\<close> forces \<open>degraded\<close> or \<open>down\<close>. Indicator and component statuses are
  compared in lower case.
\<close>

theorem parseAnthropicSummary_status:
  "(lc (indicator data) = js ''none'' \<and> (\<forall>c\<in>set (comps_of data). \<not> non_operational lc c)
      \<longrightarrow> os_status (parseAnthropicSummary lc data t) = OfficialOperational)
   \<and> (lc (indicator data) = js ''minor'' \<and> (\<forall>c\<in>set (comps_of data). \<not> down_component lc c)
      \<longrightarrow> os_status (parseAnthropicSummary lc data t) = OfficialDegraded)
   \<and> (lc (indicator data) = js ''major'' \<or> lc (indicator data) = js ''critical''
      \<longrightarrow> os_status (parseAnthropicSummary lc data t) = OfficialDown)
   \<and> ((\<exists>c\<in>set (comps_of data). str_includes (lc (comp_status c)) (js ''outage''))
      \<longrightarrow> os_status (parseAnthropicSummary lc data t) = OfficialDown)
   \<and> ((\<exists>c\<in>set (comps_of data). str_includes (lc (comp_status c)) (js ''degraded''))
      \<longrightarrow> os_status (parseAnthropicSummary lc data t) = OfficialDegraded
          \<or> os_status (parseAnthropicSummary lc data t) = OfficialDown)"
proof (intro conjI impI)
  assume "lc (indicator data) = js ''none''
    \<and> (\<forall>c\<in>set (comps_of data). \<not> non_operational lc c)"
  then show "os_status (parseAnthropicSummary lc data t) = OfficialOperational"
    by (simp add: parse_status_eq)
next
  assume "lc (indicator data) = js ''minor''
    \<and> (\<forall>c\<in>set (comps_of data). \<not> down_component lc c)"
  then show "os_status (parseAnthropicSummary lc data t) = OfficialDegraded"
    using indicator_literals_distinct by (simp add: parse_status_eq)
next
  assume "lc (indicator data) = js ''major'' \<or> lc (indicator data) = js ''critical''"
  then show "os_status (parseAnthropicSummary lc data t) = OfficialDown"
    using indicator_literals_distinct by (auto simp add: parse_status_eq)
next
  assume "\<exists>c\<in>set (comps_of data). str_includes (lc (comp_status c)) (js ''outage'')"
  then obtain c where c: "c \<in> set (comps_of data)"
      "str_includes (lc (comp_status c)) (js ''outage'')"
    by blast
  then have "non_operational lc c" "down_component lc c"
    by (simp_all add: outage_nonop down_component_def)
  with c(1) have "\<not> (\<forall>c\<in>set (comps_of data). \<not> non_operational lc c)"
    "\<exists>c\<in>set (comps_of data). down_component lc c"
    by blast+
  then show "os_status (parseAnthropicSummary lc data t) = OfficialDown"
    by (simp add: parse_status_eq)
next
  assume "\<exists>c\<in>set (comps_of data). str_includes (lc (comp_status c)) (js ''degraded'')"
  then obtain c where c: "c \<in> set (comps_of data)"
      "str_includes (lc (comp_status c)) (js ''degraded'')"
    by blast
  then have nonop: "\<not> (\<forall>c\<in>set (comps_of data). \<not> non_operational lc c)"
    using degraded_nonop by blast
  show "os_status (parseAnthropicSummary lc data t) = OfficialDegraded
          \<or> os_status (parseAnthropicSummary lc data t) = OfficialDown"
  proof (cases "\<exists>c\<in>set (comps_of data). down_component lc c")
    case True
    then show ?thesis using nonop by (simp add: parse_status_eq)
  next
    case False
    with c have "\<exists>c\<in>set (comps_of data). \<not> down_component lc c
        \<and> str_includes (lc (comp_status c)) (js ''degraded'')"
      by blast
    then show ?thesis using nonop False by (simp add: parse_status_eq)
  qed
qed

lemma ascii_lower_literals:
  "ascii_lower (js ''None'') = js ''none''"
  "ascii_lower (js ''none'') = js ''none''"
  "ascii_lower (js ''minor'') = js ''minor''"
  "ascii_lower (js ''major'') = js ''major''"
  "ascii_lower (js ''operational'') = js ''operational''"
  "ascii_lower (js ''partial_outage'') = js ''partial_outage''"
  "ascii_lower (js ''degraded_performance'') = js ''degraded_performance''"
  "ascii_lower (js ''under_maintenance'') = js ''under_maintenance''"
  by (simp_all add: ascii_lower_def js_def)

lemma component_status_facts:
  "str_includes (js ''partial_outage'') (js ''outage'')"
  "\<not> str_includes (js ''degraded_performance'') (js ''outage'')"
  "\<not> str_includes (js ''degraded_performance'') (js ''down'')"
  "js ''under_maintenance'' \<noteq> js ''operational''"
  "\<not> str_includes (js ''under_maintenance'') (js ''outage'')"
  "\<not> str_includes (js ''under_maintenance'') (js ''down'')"
  "\<not> str_includes (js ''under_maintenance'') (js ''degraded'')"
  by (simp_all add: js_def)

theorem parseAnthropicSummary_status_witness:
  "os_status (parseAnthropicSummary ascii_lower (summary_of ''None'' ''operational'') 0)
     = OfficialOperational
   \<and> os_status (parseAnthropicSummary ascii_lower (summary_of ''minor'' ''operational'') 0)
     = OfficialDegraded
   \<and> os_status (parseAnthropicSummary ascii_lower (summary_of ''major'' ''operational'') 0)
     = OfficialDown
   \<and> os_status (parseAnthropicSummary ascii_lower (summary_of ''none'' ''partial_outage'') 0)
     = OfficialDown
   \<and> (os_status
         (parseAnthropicSummary ascii_lower (summary_of ''none'' ''degraded_performance'') 0)
         = OfficialDegraded
       \<or> os_status
         (parseAnthropicSummary ascii_lower (summary_of ''none'' ''degraded_performance'') 0)
         = OfficialDown)"
  using parseAnthropicSummary_status [of ascii_lower "summary_of ''None'' ''operational''" 0]
    parseAnthropicSummary_status [of ascii_lower "summary_of ''minor'' ''operational''" 0]
    parseAnthropicSummary_status [of ascii_lower "summary_of ''major'' ''operational''" 0]
    parseAnthropicSummary_status [of ascii_lower "summary_of ''none'' ''partial_outage''" 0]
    parseAnthropicSummary_status
      [of ascii_lower "summary_of ''none'' ''degraded_performance''" 0]
    operational_not_outage operational_not_down degraded_performance_includes
    component_status_facts
  by (simp add: summary_of_def comps_of_def non_operational_def down_component_def
        ascii_lower_literals)

text \<open>
  Claim C9 as stated fails on the summary whose indicator is \<open>none\<close> and whose one component
  has the status \<open>under_maintenance\<close>: the result is \<open>unknown\<close>, not \<open>operational\<close>.
\<close>

theorem parseAnthropicSummary_none_not_operational:
  "ascii_lower (indicator (summary_of ''none'' ''under_maintenance'')) = js ''none''
   \<and> \<not> str_includes (ascii_lower (js ''under_maintenance'')) (js ''outage'')
   \<and> \<not> str_includes (ascii_lower (js ''under_maintenance'')) (js ''degraded'')
   \<and> os_status (parseAnthropicSummary ascii_lower (summary_of ''none'' ''under_maintenance'') 0)
       = OfficialUnknown"
  using indicator_literals_distinct component_status_facts
  by (simp add: parse_status_eq summary_of_def comps_of_def non_operational_def
        down_component_def ascii_lower_literals)

subsection \<open>Appending to the history\<close>

text \<open>A batch that is not empty does reach the backend, client first, then the insert.\<close>

lemma store_append_issues_insert:
  "results \<noteq> [] \<Longrightarrow>
     take (length (issued st) + 2) (issued (store_append be results st))
       = issued st @ [OpCreateClient, OpInsert results]"
  by (auto simp: store_append_def pruneInternal_def fallbackPruneHistory_def issue_def
        logError_def Let_def split: option.splits)

text \<open>
  Claim C10. Appending the empty batch leaves the store as it was: no client is created,
  nothing is inserted, no prune is sent, nothing is logged, and the table is unchanged.
\<close>

theorem store_append_empty: "store_append be [] st = st"
  by (simp add: store_append_def)

end
